theory Spec2Isabelle
  imports Main "HOL-Library.Sublist" "HOL-Library.AList"
begin

section \<open>Python strings\<close>

text \<open>
  A Python \<open>str\<close> is a sequence of Unicode code points. It is modelled as a list of
  natural numbers, one per code point, so that \<open>len\<close> is \<open>length\<close> and the literals of the
  source that lie outside ASCII (the bullet U+2022 of the risk agent, the dash U+2014 of
  the planner) can be written down. \<open>str\<close> turns an ASCII literal into such a list.
\<close>

type_synonym pystr = "nat list"

definition str :: "string \<Rightarrow> pystr" where
  "str s = map of_char s"

text \<open>\<open>str.isspace\<close> of CPython, per code point: the table of \<open>_PyUnicode_IsWhitespace\<close>.\<close>

definition py_isspace :: "nat \<Rightarrow> bool" where
  "py_isspace c \<longleftrightarrow>
     (9 \<le> c \<and> c \<le> 13) \<or> (28 \<le> c \<and> c \<le> 32) \<or> c = 133 \<or> c = 160 \<or> c = 5760 \<or>
     (8192 \<le> c \<and> c \<le> 8202) \<or> c = 8232 \<or> c = 8233 \<or> c = 8239 \<or> c = 8287 \<or> c = 12288"

text \<open>\<open>s.strip()\<close>: leading and trailing whitespace removed.\<close>

definition py_strip :: "pystr \<Rightarrow> pystr" where
  "py_strip s = rev (dropWhile py_isspace (rev (dropWhile py_isspace s)))"

text \<open>\<open>s.lstrip(chars)\<close>: the longest prefix made of characters of \<open>chars\<close> removed.\<close>

definition py_lstrip :: "pystr \<Rightarrow> pystr \<Rightarrow> pystr" where
  "py_lstrip chars s = dropWhile (\<lambda>c. c \<in> set chars) s"

text \<open>\<open>s.split(sep)\<close> for a separator of one character: \<open>"".split("\n") == [""]\<close>.\<close>

fun py_split :: "nat \<Rightarrow> pystr \<Rightarrow> pystr list" where
  "py_split sep [] = [[]]"
| "py_split sep (c # cs) =
     (if c = sep then [] # py_split sep cs
      else (case py_split sep cs of
              [] \<Rightarrow> [[c]]
            | l # ls \<Rightarrow> (c # l) # ls))"

text \<open>\<open>a in b\<close> on strings: \<open>a\<close> occurs in \<open>b\<close> as a contiguous piece.\<close>

fun py_in :: "pystr \<Rightarrow> pystr \<Rightarrow> bool" where
  "py_in a [] = (a = [])"
| "py_in a (c # cs) = (prefix a (c # cs) \<or> py_in a cs)"

text \<open>\<open>sep.join(xs)\<close>.\<close>

fun py_join :: "pystr \<Rightarrow> pystr list \<Rightarrow> pystr" where
  "py_join sep [] = []"
| "py_join sep [x] = x"
| "py_join sep (x # y # ys) = x @ sep @ py_join sep (y # ys)"

text \<open>\<open>s.startswith((p1, p2, ...))\<close>: one of the prefixes fits.\<close>

definition py_startswith :: "pystr list \<Rightarrow> pystr \<Rightarrow> bool" where
  "py_startswith ps s = list_ex (\<lambda>p. prefix p s) ps"

text \<open>
  \<open>s.replace(old, new)\<close>: every occurrence of \<open>old\<close>, found from the left and without
  overlap, becomes \<open>new\<close>; with an empty \<open>old\<close>, \<open>new\<close> is put before every character and at
  the end.
\<close>

function py_replace :: "pystr \<Rightarrow> pystr \<Rightarrow> pystr \<Rightarrow> pystr" where
  "py_replace old new s =
     (if old = [] then new @ concat (map (\<lambda>c. c # new) s)
      else if s = [] then []
      else if prefix old s then new @ py_replace old new (drop (length old) s)
      else hd s # py_replace old new (tl s))"
  by pat_completeness auto
termination
  by (relation "measure (\<lambda>(old, new, s). length s)") auto

declare py_replace.simps [simp del]

text \<open>\<open>str(n)\<close> of an integer, and the zero-padded decimal \<open>%0kd\<close> of a natural number.\<close>

fun digits :: "nat \<Rightarrow> pystr" where
  "digits n = (if n < 10 then [48 + n] else digits (n div 10) @ [48 + n mod 10])"

declare digits.simps [simp del]

definition str_int :: "int \<Rightarrow> pystr" where
  "str_int i = (if i < 0 then 45 # digits (nat (- i)) else digits (nat i))"

definition zero_pad :: "nat \<Rightarrow> nat \<Rightarrow> pystr" where
  "zero_pad k n = replicate (k - length (digits n)) 48 @ digits n"

section \<open>Values, exceptions and the outside world\<close>

text \<open>
  The values that travel in dictionaries: JSON. \<open>JDec m e\<close> is the decimal literal
  \<open>m * 10^e\<close> of the source (\<open>0.7\<close> is \<open>JDec 7 (-1)\<close>). A \<open>dict\<close> is an association list
  in insertion order.
\<close>

datatype json =
    JNone
  | JBool bool
  | JInt int
  | JDec int int
  | JStr pystr
  | JList "json list"
  | JDict "(pystr \<times> json) list"

text \<open>
  The exceptions that derive from \<open>Exception\<close>, each with its \<open>str(e)\<close>; an
  \<open>httpx.HTTPStatusError\<close> also carries the status code and the text of its response.
  Exceptions that derive from \<open>BaseException\<close> only (interpreter exit, task
  cancellation) are not modelled.
\<close>

datatype py_exn =
    HTTPStatusError pystr int pystr
  | TypeError pystr
  | RuntimeError pystr
  | OtherException pystr

fun exn_str :: "py_exn \<Rightarrow> pystr" where
  "exn_str (HTTPStatusError m code body) = m"
| "exn_str (TypeError m) = m"
| "exn_str (RuntimeError m) = m"
| "exn_str (OtherException m) = m"

record datetime =
  year :: nat
  month :: nat
  day :: nat
  hour :: nat
  minute :: nat
  second :: nat
  microsecond :: nat

text \<open>\<open>d.isoformat()\<close> and \<open>d.strftime("%Y-%m-%d")\<close>, for a year of four digits.\<close>

definition isoformat :: "datetime \<Rightarrow> pystr" where
  "isoformat d =
     zero_pad 4 (year d) @ str ''-'' @ zero_pad 2 (month d) @ str ''-'' @ zero_pad 2 (day d) @
     str ''T'' @ zero_pad 2 (hour d) @ str '':'' @ zero_pad 2 (minute d) @ str '':'' @
     zero_pad 2 (second d) @
     (if microsecond d = 0 then [] else str ''.'' @ zero_pad 6 (microsecond d))"

definition strftime_Ymd :: "datetime \<Rightarrow> pystr" where
  "strftime_Ymd d =
     zero_pad 4 (year d) @ str ''-'' @ zero_pad 2 (month d) @ str ''-'' @ zero_pad 2 (day d)"

text \<open>
  A request sent with \<open>httpx.AsyncClient\<close>, and what comes back. Of a response the code
  calls \<open>raise_for_status()\<close> (\<open>status_error\<close> is the exception that raises, if any)
  and then reads \<open>json()\<close> through subscripts; what is read depends on the caller, and
  each reading may raise (a body that is not JSON, a missing key):
  \<^item> \<open>chat_content\<close>: \<open>data["choices"][0]["message"]["content"]\<close>, a string by the
    provider's contract, with its \<open>len\<close> and the usage figures taken for the log;
  \<^item> \<open>issue_created\<close>: \<open>data["key"]\<close> and \<open>data.get("id")\<close>;
  \<^item> \<open>issues_found\<close>: \<open>data.get("issues", [])\<close>, a list by the tracker's contract.
\<close>

record http_request =
  verb :: string
  url :: pystr
  timeout :: nat
  auth :: "(pystr option \<times> pystr option) option"
  headers :: "(pystr \<times> pystr) list"
  query :: "(pystr \<times> json) list"
  body :: "json option"

record http_response =
  status_error :: "py_exn option"
  chat_content :: "py_exn + pystr"
  issue_created :: "py_exn + pystr \<times> json"
  issues_found :: "py_exn + json list"

text \<open>
  A built-in operation that fails raises an exception of the interpreter; which one is
  part of the model, how its \<open>str(e)\<close> reads is the interpreter's:
  a key that a dict does not have, a subscript on a value that is not a dict, a value
  that cannot be a key of a dict, an attribute that a value does not have.
\<close>

datatype py_fault =
    MissingKey pystr
  | BadSubscript json pystr
  | Unhashable json
  | NoAttribute json pystr

text \<open>
  The outside world of one invocation: the clock (\<open>utcnow e k\<close> is its \<open>k\<close>-th reading)
  and the network (\<open>http e k r\<close> answers the \<open>k\<close>-th request, or raises); and what the
  interpreter brings along:
  \<^item> the builtin \<open>hash\<close> on strings, which Python salts per process;
  \<^item> the Unicode database behind \<open>str.lower\<close>: \<open>lower_full e c\<close> is the lowercase
    mapping of a code point \<open>c\<close> outside ASCII (one to three code points), and
    \<open>final_sigma e before after\<close> tells whether a capital sigma between these two texts
    ends a word;
  \<^item> the text of the exception raised for a fault;
  \<^item> the floating-point expression \<open>round((done / total) * 100, 1)\<close> of the progress
    agent: its value is the float next to \<open>k / 10\<close> for the integer
    \<open>k = rate_tenths e done total\<close>.
\<close>

record env =
  utcnow :: "nat \<Rightarrow> datetime"
  http :: "nat \<Rightarrow> http_request \<Rightarrow> py_exn + http_response"
  py_hash :: "pystr \<Rightarrow> int"
  lower_full :: "nat \<Rightarrow> pystr"
  final_sigma :: "pystr \<Rightarrow> pystr \<Rightarrow> bool"
  fault_text :: "py_fault \<Rightarrow> pystr"
  rate_tenths :: "int \<Rightarrow> int \<Rightarrow> int"

text \<open>
  \<open>s.lower()\<close>, character by character as CPython does it: an ASCII capital moves up
  by 32 and any other ASCII character stays; the capital sigma U+03A3 becomes the final
  sigma U+03C2 or the small sigma U+03C3, by its place in the word; every other code
  point becomes what the Unicode database says.
\<close>

definition ascii_lower :: "nat \<Rightarrow> nat" where
  "ascii_lower c = (if 65 \<le> c \<and> c \<le> 90 then c + 32 else c)"

definition lower_at :: "env \<Rightarrow> pystr \<Rightarrow> nat \<Rightarrow> pystr \<Rightarrow> pystr" where
  "lower_at e before c after =
     (if c < 128 then [ascii_lower c]
      else if c = 931 then [if final_sigma e before after then 962 else 963]
      else lower_full e c)"

fun lower_from :: "env \<Rightarrow> pystr \<Rightarrow> pystr \<Rightarrow> pystr" where
  "lower_from e before [] = []"
| "lower_from e before (c # after) =
     lower_at e before c after @ lower_from e (before @ [c]) after"

definition py_lower :: "env \<Rightarrow> pystr \<Rightarrow> pystr" where
  "py_lower e s = lower_from e [] s"

text \<open>
  The effects performed so far: how often the clock was read, the requests sent over the
  network, and the prompts handed to \<open>LLMClient.chat\<close>.
\<close>

record world =
  ticks :: nat
  sent :: "http_request list"
  llm_calls :: "pystr list"

definition world0 :: world where
  "world0 = \<lparr>ticks = 0, sent = [], llm_calls = []\<rparr>"

definition http_send :: "env \<Rightarrow> http_request \<Rightarrow> world \<Rightarrow> (py_exn + http_response) \<times> world" where
  "http_send e r w = (http e (length (sent w)) r, w\<lparr>sent := sent w @ [r]\<rparr>)"

section \<open>shared/llm\_client.py\<close>

record llm_client =
  provider :: pystr
  api_key :: pystr
  base_url :: pystr
  model :: pystr

text \<open>
  \<open>LLMClient.__init__\<close>, from the environment variables \<open>LLM_PROVIDER\<close> and
  \<open>GROQ_API_KEY\<close>. The three other attributes exist only for the provider groq; they
  are empty here otherwise, and \<open>chat\<close> reads them for groq only.
\<close>

definition LLMClient_init :: "env \<Rightarrow> pystr option \<Rightarrow> pystr option \<Rightarrow> py_exn + llm_client" where
  "LLMClient_init e llm_provider groq_api_key =
     (let p = py_lower e (case llm_provider of None \<Rightarrow> str ''stub'' | Some v \<Rightarrow> v) in
      if p = str ''groq'' then
        (case groq_api_key of
           None \<Rightarrow> Inl (RuntimeError (str ''GROQ_API_KEY is not set''))
         | Some k \<Rightarrow>
             if k = [] then Inl (RuntimeError (str ''GROQ_API_KEY is not set''))
             else Inr \<lparr>provider = p, api_key = k,
                       base_url = str ''https://api.groq.com/openai/v1/chat/completions'',
                       model = str ''llama-3.3-70b-versatile''\<rparr>)
      else Inr \<lparr>provider = p, api_key = [], base_url = [], model = []\<rparr>)"

definition chat_request :: "llm_client \<Rightarrow> pystr \<Rightarrow> http_request" where
  "chat_request c prompt =
     \<lparr>verb = ''POST'', url = base_url c, timeout = 30, auth = None,
      headers = [(str ''Authorization'', str ''Bearer '' @ api_key c),
                 (str ''Content-Type'', str ''application/json'')],
      query = [],
      body = Some (JDict
        [(str ''model'', JStr (model c)),
         (str ''messages'',
            JList [JDict [(str ''role'', JStr (str ''user'')), (str ''content'', JStr prompt)]]),
         (str ''temperature'', JDec 7 (-1)),
         (str ''max_tokens'', JInt 1024)])\<rparr>"

text \<open>
  The body of the \<open>try\<close> of \<open>chat\<close>: the request is posted, the status checked and
  the content read; each of the three may raise.
\<close>

definition chat_upstream :: "env \<Rightarrow> llm_client \<Rightarrow> pystr \<Rightarrow> world \<Rightarrow> (py_exn + pystr) \<times> world" where
  "chat_upstream e c prompt w =
     (case http_send e (chat_request c prompt) w of
        (Inl ex, w') \<Rightarrow> (Inl ex, w')
      | (Inr resp, w') \<Rightarrow>
          (case status_error resp of
             Some ex \<Rightarrow> (Inl ex, w')
           | None \<Rightarrow> (chat_content resp, w')))"

text \<open>
  \<open>LLMClient.chat\<close>. The result is a sum so that a caller's \<open>except Exception\<close> around
  the call has something to catch; \<open>Inl\<close> would be an exception leaving \<open>chat\<close>.
\<close>

definition chat :: "env \<Rightarrow> llm_client \<Rightarrow> pystr \<Rightarrow> world \<Rightarrow> (py_exn + pystr) \<times> world" where
  "chat e c prompt w0 =
     (let w = w0\<lparr>llm_calls := llm_calls w0 @ [prompt]\<rparr> in
      if provider c = str ''stub'' then (Inr (str ''[stub] '' @ prompt), w)
      else if provider c \<noteq> str ''groq'' then
        (Inr (str ''[unsupported provider] '' @ provider c), w)
      else
        (case chat_upstream e c prompt w of
           (Inr content, w') \<Rightarrow> (Inr content, w')
         | (Inl ex, w') \<Rightarrow> (Inr (str ''[LLM error] '' @ exn_str ex), w')))"

section \<open>shared/models.py and the results of the handlers\<close>

type_synonym dict = "(pystr \<times> json) list"

record reasoning_step =
  step_number :: int
  description :: pystr
  timestamp :: pystr
  input_data :: "dict option"
  output_data :: "dict option"

text \<open>
  \<open>ReasoningStep(step_number=n, description=d, input_data=i, output_data=o)\<close>: the
  timestamp is taken from the clock when the step is made.
\<close>

definition ReasoningStep ::
  "env \<Rightarrow> int \<Rightarrow> pystr \<Rightarrow> dict option \<Rightarrow> dict option \<Rightarrow> world \<Rightarrow> reasoning_step \<times> world" where
  "ReasoningStep e n d i o' w =
     (\<lparr>step_number = n, description = d, timestamp = isoformat (utcnow e (ticks w)),
       input_data = i, output_data = o'\<rparr>,
      w\<lparr>ticks := Suc (ticks w)\<rparr>)"

text \<open>
  What a handler returns: a dictionary whose values are JSON, but for the trace, which is
  a list of \<open>ReasoningStep\<close> objects.
\<close>

datatype pyval = Val json | Steps "reasoning_step list"

type_synonym result = "(pystr \<times> pyval) list"

text \<open>\<open>r.get("reasoning", [])\<close>, \<open>r.get("subtasks", [])\<close> and \<open>k in r\<close>.\<close>

definition get_reasoning :: "result \<Rightarrow> reasoning_step list" where
  "get_reasoning r = (case map_of r (str ''reasoning'') of Some (Steps ss) \<Rightarrow> ss | _ \<Rightarrow> [])"

fun strings_of :: "json list \<Rightarrow> pystr list" where
  "strings_of [] = []"
| "strings_of (JStr s # js) = s # strings_of js"
| "strings_of (_ # js) = strings_of js"

definition get_subtasks :: "result \<Rightarrow> pystr list" where
  "get_subtasks r =
     (case map_of r (str ''subtasks'') of Some (Val (JList js)) \<Rightarrow> strings_of js | _ \<Rightarrow> [])"

definition has_key :: "pystr \<Rightarrow> result \<Rightarrow> bool" where
  "has_key k r \<longleftrightarrow> map_of r k \<noteq> None"

definition json_strs :: "pystr list \<Rightarrow> json" where
  "json_strs xs = JList (map JStr xs)"

section \<open>shared/jira.py\<close>

record jira_client =
  jira_url :: pystr
  email :: "pystr option"
  token :: "pystr option"
  project_key :: pystr
  mock_mode :: bool

definition py_rstrip :: "pystr \<Rightarrow> pystr \<Rightarrow> pystr" where
  "py_rstrip chars s = rev (dropWhile (\<lambda>c. c \<in> set chars) (rev s))"

definition truthy :: "pystr option \<Rightarrow> bool" where
  "truthy v \<longleftrightarrow> (case v of None \<Rightarrow> False | Some s \<Rightarrow> s \<noteq> [])"

text \<open>
  \<open>JiraClient.__init__\<close>, from the environment variables \<open>JIRA_URL\<close>, \<open>JIRA_EMAIL\<close>,
  \<open>JIRA_API_TOKEN\<close> and \<open>JIRA_PROJECT_KEY\<close>.
\<close>

definition JiraClient_init ::
  "pystr option \<Rightarrow> pystr option \<Rightarrow> pystr option \<Rightarrow> pystr option \<Rightarrow> jira_client" where
  "JiraClient_init env_url env_email env_token env_key =
     (let u = py_rstrip (str ''/'') (case env_url of None \<Rightarrow> [] | Some v \<Rightarrow> v) in
      \<lparr>jira_url = u, email = env_email, token = env_token,
       project_key = (case env_key of None \<Rightarrow> str ''PROJ'' | Some v \<Rightarrow> v),
       mock_mode = (\<not> (u \<noteq> [] \<and> truthy env_email \<and> truthy env_token))\<rparr>)"

definition create_request :: "jira_client \<Rightarrow> pystr \<Rightarrow> pystr \<Rightarrow> pystr \<Rightarrow> http_request" where
  "create_request j summary descr issue_type =
     \<lparr>verb = ''POST'', url = jira_url j @ str ''/rest/api/3/issue'', timeout = 15,
      auth = Some (email j, token j),
      headers = [(str ''Content-Type'', str ''application/json'')],
      query = [],
      body = Some (JDict [(str ''fields'', JDict
        [(str ''project'', JDict [(str ''key'', JStr (project_key j))]),
         (str ''summary'', JStr summary),
         (str ''description'', JDict
            [(str ''type'', JStr (str ''doc'')),
             (str ''version'', JInt 1),
             (str ''content'', JList [JDict
                [(str ''type'', JStr (str ''paragraph'')),
                 (str ''content'', JList [JDict
                    [(str ''type'', JStr (str ''text'')),
                     (str ''text'', JStr descr)]])]])]),
         (str ''issuetype'', JDict [(str ''name'', JStr issue_type)])])])\<rparr>"

text \<open>
  The body of the \<open>try\<close> of \<open>create_task\<close>: the request is posted, the status checked,
  and the key and the id of the new issue are read; each of the three may raise.
\<close>

definition create_upstream ::
  "env \<Rightarrow> jira_client \<Rightarrow> pystr \<Rightarrow> pystr \<Rightarrow> pystr \<Rightarrow> world
     \<Rightarrow> (py_exn + pystr \<times> json) \<times> world" where
  "create_upstream e j summary descr issue_type w =
     (case http_send e (create_request j summary descr issue_type) w of
        (Inl ex, w') \<Rightarrow> (Inl ex, w')
      | (Inr resp, w') \<Rightarrow>
          (case status_error resp of
             Some ex \<Rightarrow> (Inl ex, w')
           | None \<Rightarrow> (issue_created resp, w')))"

text \<open>
  \<open>JiraClient.create_task\<close>. In mock mode the key is made of the project key and
  \<open>hash(summary) % 1000\<close> (Python's \<open>%\<close> with a positive modulus is \<open>mod\<close>), and the
  function returns before any request is built. Otherwise an
  \<open>httpx.HTTPStatusError\<close> and any other exception each have their \<open>except\<close> clause.
\<close>

definition create_task ::
  "env \<Rightarrow> jira_client \<Rightarrow> pystr \<Rightarrow> pystr \<Rightarrow> pystr \<Rightarrow> world \<Rightarrow> (py_exn + dict) \<times> world" where
  "create_task e j summary descr issue_type w =
     (if mock_mode j then
        (let mock_key = project_key j @ str ''-'' @ str_int (py_hash e summary mod 1000) in
         (Inr [(str ''status'', JStr (str ''mock_created'')),
               (str ''issue_key'', JStr mock_key),
               (str ''url'', JStr (str ''https://mock-jira.atlassian.net/browse/'' @ mock_key)),
               (str ''mock'', JBool True)], w))
      else
        (case create_upstream e j summary descr issue_type w of
           (Inr (issue_key, ident), w') \<Rightarrow>
             (Inr [(str ''status'', JStr (str ''created'')),
                   (str ''issue_key'', JStr issue_key),
                   (str ''url'', JStr (jira_url j @ str ''/browse/'' @ issue_key)),
                   (str ''id'', ident),
                   (str ''mock'', JBool False)], w')
         | (Inl (HTTPStatusError m code txt), w') \<Rightarrow>
             (Inr [(str ''status'', JStr (str ''error'')),
                   (str ''error'',
                      JStr (str ''HTTP '' @ str_int code @ str '': '' @ take 200 txt)),
                   (str ''mock'', JBool False)], w')
         | (Inl ex, w') \<Rightarrow>
             (Inr [(str ''status'', JStr (str ''error'')),
                   (str ''error'', JStr (exn_str ex)),
                   (str ''mock'', JBool False)], w')))"

definition mock_issue :: "jira_client \<Rightarrow> string \<Rightarrow> string \<Rightarrow> string \<Rightarrow> json" where
  "mock_issue j n summary status =
     JDict [(str ''key'', JStr (project_key j @ str ''-'' @ str n)),
            (str ''fields'', JDict
               [(str ''summary'', JStr (str summary)),
                (str ''status'', JDict [(str ''name'', JStr (str status))])])]"

definition issues_request :: "jira_client \<Rightarrow> int \<Rightarrow> http_request" where
  "issues_request j max_results =
     \<lparr>verb = ''GET'', url = jira_url j @ str ''/rest/api/3/search'', timeout = 15,
      auth = Some (email j, token j), headers = [],
      query = [(str ''jql'', JStr (str ''project='' @ project_key j)),
               (str ''maxResults'', JInt max_results),
               (str ''fields'', JStr (str ''summary,status,assignee,created''))],
      body = None\<rparr>"

text \<open>\<open>JiraClient.get_project_issues\<close>.\<close>

definition get_project_issues ::
  "env \<Rightarrow> jira_client \<Rightarrow> int \<Rightarrow> world \<Rightarrow> (py_exn + json list) \<times> world" where
  "get_project_issues e j max_results w =
     (if mock_mode j then
        (Inr [mock_issue j ''1'' ''Implement authentication'' ''Done'',
              mock_issue j ''2'' ''Add API documentation'' ''In Progress'',
              mock_issue j ''3'' ''Setup CI/CD'' ''To Do''], w)
      else
        (case http_send e (issues_request j max_results) w of
           (Inl ex, w') \<Rightarrow> (Inr [], w')
         | (Inr resp, w') \<Rightarrow>
             (case status_error resp of
                Some ex \<Rightarrow> (Inr [], w')
              | None \<Rightarrow>
                  (case issues_found resp of
                     Inl ex \<Rightarrow> (Inr [], w')
                   | Inr issues \<Rightarrow> (Inr issues, w')))))"

text \<open>\<open>issue["fields"]["status"]["name"]\<close>, as the progress agent reads it.\<close>

definition issue_status :: "json \<Rightarrow> json option" where
  "issue_status issue =
     (case issue of
        JDict d \<Rightarrow>
          (case map_of d (str ''fields'') of
             Some (JDict f) \<Rightarrow>
               (case map_of f (str ''status'') of
                  Some (JDict s) \<Rightarrow> map_of s (str ''name'')
                | _ \<Rightarrow> None)
           | _ \<Rightarrow> None)
      | _ \<Rightarrow> None)"

section \<open>agents/planner/agent.py\<close>

record planner_agent =
  llm :: llm_client
  jira :: jira_client

definition error_indicators :: "pystr list" where
  "error_indicators =
     [str ''llm error'', str ''unauthorized'', str ''401'', str ''client error'',
      str ''for more information check'', str ''status/401'', str ''connection error'',
      str ''timeout'']"

definition stub_indicators :: "pystr list" where
  "stub_indicators =
     [str ''[stub]'', str ''you are a senior project planner'',
      str ''return only a numbered list'', str ''break down this task'',
      str ''each subtask should be'']"

text \<open>\<open>PlannerAgent._is_invalid_response\<close>.\<close>

definition is_invalid_response :: "env \<Rightarrow> pystr list \<Rightarrow> bool" where
  "is_invalid_response e subtasks =
     (if subtasks = [] then True
      else (let text = py_lower e (py_join (str '' '') subtasks) in
            list_ex (\<lambda>indicator. py_in indicator text) (error_indicators @ stub_indicators)))"

definition plan_prompt :: "pystr \<Rightarrow> pystr" where
  "plan_prompt descr =
     str ''You are a senior project planner.\<newline>'' @
     str ''Break down this task into 3-5 concrete, actionable subtasks:\<newline>'' @
     descr @ str ''\<newline>\<newline>'' @
     str ''Return ONLY a numbered list, one subtask per line.\<newline>'' @
     str ''Each subtask should be clear and specific.''"

text \<open>
  The two list comprehensions of \<open>plan\<close>: the lines that begin, once stripped, with a
  digit, a dot or a dash, without their numbering; and, when there is none, the first
  five non-empty lines.
\<close>

definition numbered :: "pystr \<Rightarrow> bool" where
  "numbered line \<longleftrightarrow>
     py_strip line \<noteq> [] \<and> hd (py_strip line) \<in> set (str ''0123456789.-'')"

definition numbered_lines :: "pystr \<Rightarrow> pystr list" where
  "numbered_lines response =
     map (\<lambda>line. py_lstrip (str ''0123456789.-) '') (py_strip line))
       (filter numbered (py_split 10 response))"

definition first_lines :: "pystr \<Rightarrow> pystr list" where
  "first_lines response =
     take 5 (map py_strip (filter (\<lambda>line. py_strip line \<noteq> []) (py_split 10 response)))"

definition parse_subtasks :: "pystr \<Rightarrow> pystr list" where
  "parse_subtasks response =
     (let subtasks = numbered_lines response in
      if subtasks = [] then first_lines response else subtasks)"

definition fallback_subtasks :: "pystr list" where
  "fallback_subtasks =
     [str ''Research requirements and constraints'',
      str ''Design solution architecture'',
      str ''Implement core functionality'',
      str ''Add validation and error handling'',
      str ''Write tests and documentation'']"

text \<open>The \<open>try\<close> block of \<open>plan\<close> from the parsing on, once \<open>chat\<close> has returned.\<close>

definition plan_parsed ::
  "env \<Rightarrow> pystr \<Rightarrow> reasoning_step list \<Rightarrow> pystr \<Rightarrow> world \<Rightarrow> result \<times> world" where
  "plan_parsed e descr reasoning response w =
     (let subtasks = parse_subtasks response in
      if is_invalid_response e subtasks then
        (let (s4, w') = ReasoningStep e 4
                 (str ''Detected LLM stub/error response '' @ [8212] @
                  str '' using safe fallback subtasks'')
                 None
                 (Some [(str ''fallback_used'', JBool True),
                        (str ''original_response_preview'', JStr (take 200 response))]) w
         in ([(str ''task'', Val (JStr descr)),
              (str ''subtasks'', Val (json_strs fallback_subtasks)),
              (str ''reasoning'', Steps (reasoning @ [s4]))], w'))
      else
        (let (s4, w') = ReasoningStep e 4
                 (str ''Successfully parsed subtasks from LLM response'')
                 None
                 (Some [(str ''subtasks_count'', JInt (int (length subtasks))),
                        (str ''subtasks'', json_strs subtasks)]) w
         in ([(str ''task'', Val (JStr descr)),
              (str ''subtasks'', Val (json_strs subtasks)),
              (str ''reasoning'', Steps (reasoning @ [s4]))], w')))"

text \<open>\<open>PlannerAgent.plan\<close>.\<close>

definition plan :: "env \<Rightarrow> planner_agent \<Rightarrow> pystr \<Rightarrow> world \<Rightarrow> result \<times> world" where
  "plan e a descr w0 =
     (let (s1, w1) = ReasoningStep e 1 (str ''Received task for planning'')
                       (Some [(str ''description'', JStr descr)]) None w0;
          prompt = plan_prompt descr;
          (s2, w2) = ReasoningStep e 2 (str ''Generated prompt for LLM planning'') None None w1
      in case chat e (llm a) prompt w2 of
           (Inr response, w3) \<Rightarrow> plan_parsed e descr [s1, s2] response w3
         | (Inl ex, w3) \<Rightarrow>
             (let (s5, w4) = ReasoningStep e 5 (str ''Critical planning failure'') None
                               (Some [(str ''error'', JStr (exn_str ex))]) w3
              in ([(str ''task'', Val (JStr descr)),
                   (str ''error'', Val (JStr (exn_str ex))),
                   (str ''reasoning'', Steps ([s1, s2] @ [s5])),
                   (str ''fallback_subtasks'',
                      Val (json_strs [str ''Manual planning required'']))], w4)))"

text \<open>
  The loop of \<open>plan_with_jira\<close> over \<open>enumerate(subtasks, 1)\<close>: one issue per subtask,
  appended to \<open>jira_issues\<close>; an exception ends the loop and keeps what was appended.
\<close>

fun create_subtasks ::
  "env \<Rightarrow> jira_client \<Rightarrow> pystr \<Rightarrow> int \<Rightarrow> pystr list \<Rightarrow> json list \<Rightarrow> world
     \<Rightarrow> (py_exn option \<times> json list) \<times> world" where
  "create_subtasks e j descr i [] jira_issues w = ((None, jira_issues), w)"
| "create_subtasks e j descr i (subtask # rest) jira_issues w =
     (case create_task e j (str ''[Subtask '' @ str_int i @ str ''] '' @ subtask)
             (str ''Part of epic: '' @ descr) (str ''Task'') w of
        (Inl ex, w') \<Rightarrow> ((Some ex, jira_issues), w')
      | (Inr issue_result, w') \<Rightarrow>
          create_subtasks e j descr (i + 1) rest (jira_issues @ [JDict issue_result]) w')"

text \<open>
  The \<open>try\<close> block of \<open>plan_with_jira\<close>: the trace and the issues as they stand when the
  block is left, and the exception if it was left by one.
\<close>

definition jira_phase ::
  "env \<Rightarrow> jira_client \<Rightarrow> pystr \<Rightarrow> pystr list \<Rightarrow> reasoning_step list \<Rightarrow> world
     \<Rightarrow> (py_exn option \<times> reasoning_step list \<times> json list) \<times> world" where
  "jira_phase e j descr subtasks reasoning w =
     (case create_task e j (str ''[Epic] '' @ descr)
             (str ''Auto-generated by OrchestrAI\<newline>Subtasks planned: '' @
              str_int (int (length subtasks))) (str ''Task'') w of
        (Inl ex, w1) \<Rightarrow> ((Some ex, reasoning, []), w1)
      | (Inr epic_result, w1) \<Rightarrow>
          (let (s3, w2) = ReasoningStep e 3 (str ''Created Epic in Jira'') None
                            (Some [(str ''epic'', JDict epic_result)]) w1
           in case create_subtasks e j descr 1 subtasks [JDict epic_result] w2 of
                ((Some ex, jira_issues), w3) \<Rightarrow> ((Some ex, reasoning @ [s3], jira_issues), w3)
              | ((None, jira_issues), w3) \<Rightarrow>
                  (let (s4, w4) = ReasoningStep e 4 (str ''Successfully created all Jira issues'')
                                    None
                                    (Some [(str ''total_issues_created'',
                                            JInt (int (length jira_issues)))]) w3
                   in ((None, reasoning @ [s3] @ [s4], jira_issues), w4))))"

text \<open>\<open>PlannerAgent.plan_with_jira\<close>.\<close>

definition plan_with_jira ::
  "env \<Rightarrow> planner_agent \<Rightarrow> pystr \<Rightarrow> pystr option \<Rightarrow> world \<Rightarrow> result \<times> world" where
  "plan_with_jira e a descr proj w0 =
     (let (s1, w1) = ReasoningStep e 1 (str ''Received task for planning with Jira integration'')
                       (Some [(str ''description'', JStr descr),
                              (str ''project_key'',
                                 (case proj of None \<Rightarrow> JNone | Some k \<Rightarrow> JStr k))]) None w0;
          (plan_result, w2) = plan e a descr w1;
          subtasks = get_subtasks plan_result;
          reasoning = [s1] @ get_reasoning plan_result
      in if has_key (str ''error'') plan_result \<and> \<not> has_key (str ''fallback_subtasks'') plan_result
         then (plan_result, w2)
         else
           (let (s2, w3) = ReasoningStep e 2
                    (str ''Planning phase completed, initiating Jira integration'') None
                    (Some [(str ''subtasks_count'', JInt (int (length subtasks)))]) w2;
                ((raised, reasoning', jira_issues), w4) =
                    jira_phase e (jira a) descr subtasks (reasoning @ [s2]) w3;
                ((reasoning'', jira_issues'), w5) =
                    (case raised of
                       None \<Rightarrow> ((reasoning', jira_issues), w4)
                     | Some ex \<Rightarrow>
                         (let (s5, w) = ReasoningStep e 5 (str ''Jira task creation failed'') None
                                          (Some [(str ''error'', JStr (exn_str ex))]) w4
                          in ((reasoning' @ [s5],
                               jira_issues @ [JDict [(str ''status'', JStr (str ''error'')),
                                                     (str ''details'', JStr (exn_str ex))]]), w)))
            in ([(str ''task'', Val (JStr descr)),
                 (str ''subtasks'', Val (json_strs subtasks)),
                 (str ''jira_issues'', Val (JList jira_issues')),
                 (str ''jira_mode'', Val (JStr (if mock_mode (jira a) then str ''mock''
                                               else str ''real''))),
                 (str ''reasoning'', Steps reasoning'')], w5)))"

section \<open>agents/risks/agent.py\<close>

definition risks_prompt :: "pystr \<Rightarrow> pystr" where
  "risks_prompt feature =
     str ''Analyze risks for implementing: '' @ feature @ str ''\<newline>\<newline>'' @
     str ''Provide a concise risk analysis covering:\<newline>'' @
     str ''1. Security risks (top 2-3)\<newline>'' @
     str ''2. Performance risks (top 2)\<newline>'' @
     str ''3. Technical debt risks (top 2)\<newline>'' @
     str ''4. Compliance risks (if applicable)\<newline>\<newline>'' @
     str ''For each risk, provide:\<newline>'' @
     str ''- Risk name (brief)\<newline>'' @
     str ''- Impact (High/Medium/Low)\<newline>'' @
     str ''- Quick mitigation strategy (1 sentence)\<newline>\<newline>'' @
     str ''Keep total response under 500 words. Use bullet points.''"

text \<open>The markers of a risk line; 8226 is the bullet U+2022.\<close>

definition risk_prefixes :: "pystr list" where
  "risk_prefixes =
     [str ''- '', str ''* '', [8226, 32], str ''1.'', str ''2.'', str ''3.'', str ''4.'', str ''5.'']"

definition risk_markers :: pystr where
  "risk_markers = str ''-*'' @ [8226] @ str ''0123456789. ''"

text \<open>The condition of the loop on a stripped line, and the line without its markers.\<close>

definition risk_looking :: "env \<Rightarrow> pystr \<Rightarrow> bool" where
  "risk_looking e line \<longleftrightarrow>
     line \<noteq> [] \<and>
     (py_startswith risk_prefixes line \<or> py_in (str ''Risk:'') line \<or>
      py_in (str ''risk'') (py_lower e line))"

definition clean_line :: "pystr \<Rightarrow> pystr" where
  "clean_line line = py_strip (py_lstrip risk_markers line)"

text \<open>The loop of \<open>analyze_risks\<close> over the lines of the analysis.\<close>

fun risk_loop :: "env \<Rightarrow> pystr list \<Rightarrow> pystr list \<Rightarrow> pystr list" where
  "risk_loop e [] detected_risks = detected_risks"
| "risk_loop e (l # ls) detected_risks =
     (let line = py_strip l in
      if risk_looking e line then
        (if length (clean_line line) > 20
         then risk_loop e ls (detected_risks @ [clean_line line])
         else risk_loop e ls detected_risks)
      else risk_loop e ls detected_risks)"

definition detect_risks :: "env \<Rightarrow> pystr \<Rightarrow> pystr list" where
  "detect_risks e analysis = take 10 (risk_loop e (py_split 10 analysis) [])"

record risks_agent =
  risks_llm :: llm_client

text \<open>\<open>RisksAgent.analyze_risks\<close>.\<close>

definition analyze_risks :: "env \<Rightarrow> risks_agent \<Rightarrow> pystr \<Rightarrow> world \<Rightarrow> result \<times> world" where
  "analyze_risks e a feature w0 =
     (let (s1, w1) = ReasoningStep e 1 (str ''Risk analysis requested'')
                       (Some [(str ''feature'', JStr feature)]) None w0;
          prompt = risks_prompt feature;
          (s2, w2) = ReasoningStep e 2 (str ''Generated risk analysis prompt'') None None w1
      in case chat e (risks_llm a) prompt w2 of
           (Inr analysis, w3) \<Rightarrow>
             (let detected_risks = detect_risks e analysis;
                  (s3, w4) = ReasoningStep e 3 (str ''Risk analysis completed'') None
                               (Some [(str ''risks_count'', JInt (int (length detected_risks))),
                                      (str ''analysis_length'', JInt (int (length analysis)))]) w3
              in ([(str ''feature'', Val (JStr feature)),
                   (str ''risk_analysis'', Val (JStr analysis)),
                   (str ''detected_risks'', Val (json_strs detected_risks)),
                   (str ''total_risks'', Val (JInt (int (length detected_risks)))),
                   (str ''reasoning'', Steps ([s1, s2] @ [s3]))], w4))
         | (Inl ex, w3) \<Rightarrow>
             (let (s4, w4) = ReasoningStep e 4 (str ''Risk analysis failed'') None
                               (Some [(str ''error'', JStr (exn_str ex))]) w3
              in ([(str ''feature'', Val (JStr feature)),
                   (str ''error'', Val (JStr (exn_str ex))),
                   (str ''reasoning'', Steps ([s1, s2] @ [s4])),
                   (str ''fallback'', Val (JStr (str ''Manual risk assessment required'')))], w4)))"

definition get_detected_risks :: "result \<Rightarrow> pystr list" where
  "get_detected_risks r =
     (case map_of r (str ''detected_risks'') of
        Some (Val (JList js)) \<Rightarrow> strings_of js
      | _ \<Rightarrow> [])"

section \<open>agents/digest/agent.py\<close>

text \<open>
  The prompt of the digest. Its pictographs are the code points U+1F4C5, U+2705,
  U+1F6A7, U+1F465 and U+1F4CA.
\<close>

definition digest_prompt :: "pystr \<Rightarrow> pystr" where
  "digest_prompt date =
     str ''Generate a concise daily project digest for '' @ date @ str ''.\<newline>\<newline>'' @
     str ''Structure:\<newline>'' @
     [128197] @ str '' Date: '' @ date @ str ''\<newline>\<newline>'' @
     [9989] @ str '' Key Achievements (2-3 items):\<newline>'' @
     str ''- [List main accomplishments]\<newline>\<newline>'' @
     [128679] @ str '' Current Blockers (if any):\<newline>'' @
     str ''- [List or write '' @ [39] @ str ''None'' @ [39] @ str '']\<newline>\<newline>'' @
     [128101] @ str '' Team Status:\<newline>'' @
     str ''- [Brief mood/productivity note]\<newline>\<newline>'' @
     [128202] @ str '' Progress Summary:\<newline>'' @
     str ''- [1-2 sentences on overall progress]\<newline>\<newline>'' @
     str ''Keep it positive, actionable, and under 150 words total.''"

record digest_agent =
  digest_llm :: llm_client

text \<open>
  \<open>DigestAgent.daily_digest\<close>. The variable \<open>date\<close> is first replaced by today's date
  when it is \<open>None\<close> or empty; \<open>date is None\<close> is asked of the variable afterwards.
\<close>

definition daily_digest :: "env \<Rightarrow> digest_agent \<Rightarrow> pystr option \<Rightarrow> world \<Rightarrow> result \<times> world" where
  "daily_digest e a date0 w0 =
     (let (date, w0') =
            (if \<not> truthy date0
             then (Some (strftime_Ymd (utcnow e (ticks w0))), w0\<lparr>ticks := Suc (ticks w0)\<rparr>)
             else (date0, w0));
          date_json = (case date of None \<Rightarrow> JNone | Some d \<Rightarrow> JStr d);
          date_text = (case date of None \<Rightarrow> str ''None'' | Some d \<Rightarrow> d);
          (s1, w1) = ReasoningStep e 1 (str ''Daily digest requested'')
                       (Some [(str ''date'', date_json),
                              (str ''auto_date'', JBool (date = None))]) None w0';
          prompt = digest_prompt date_text;
          (s2, w2) = ReasoningStep e 2 (str ''Generated digest prompt'') None None w1
      in case chat e (digest_llm a) prompt w2 of
           (Inr digest, w3) \<Rightarrow>
             (let (s3, w4) = ReasoningStep e 3 (str ''Daily digest generated'') None
                               (Some [(str ''digest_length'', JInt (int (length digest))),
                                      (str ''date_used'', date_json)]) w3
              in ([(str ''date'', Val date_json),
                   (str ''summary'', Val (JStr digest)),
                   (str ''generated_at'', Val (JStr (isoformat (utcnow e (ticks w4))))),
                   (str ''reasoning'', Steps ([s1, s2] @ [s3]))],
                  w4\<lparr>ticks := Suc (ticks w4)\<rparr>))
         | (Inl ex, w3) \<Rightarrow>
             (let (s4, w4) = ReasoningStep e 4 (str ''Digest generation failed'') None
                               (Some [(str ''error'', JStr (exn_str ex))]) w3
              in ([(str ''date'', Val date_json),
                   (str ''error'', Val (JStr (exn_str ex))),
                   (str ''reasoning'', Steps ([s1, s2] @ [s4])),
                   (str ''fallback'', Val (JStr (str ''No updates today'')))], w4)))"

section \<open>agents/image/agent.py\<close>

record image_agent =
  image_llm :: llm_client

definition json_opt :: "pystr option \<Rightarrow> json" where
  "json_opt v = (case v of None \<Rightarrow> JNone | Some s \<Rightarrow> JStr s)"

definition image_prompt :: "pystr option \<Rightarrow> pystr" where
  "image_prompt context =
     str ''You are a senior UX and system design reviewer.\<newline>'' @
     str ''Analyze the provided image and give structured feedback.\<newline>\<newline>'' @
     str ''Context: '' @
     (case context of
        None \<Rightarrow> str ''Not provided''
      | Some c \<Rightarrow> if c = [] then str ''Not provided'' else c) @
     str ''\<newline>\<newline>'' @
     str ''Provide:\<newline>'' @
     str ''1. Short summary\<newline>'' @
     str ''2. Detected issues (type + severity)\<newline>'' @
     str ''3. Improvement suggestions\<newline>'' @
     str ''Keep it concise and structured.''"

text \<open>
  \<open>ImageAgent.analyze_image\<close>. The call of \<open>chat\<close> is not inside a \<open>try\<close>: an
  exception of \<open>chat\<close> would leave the handler.
\<close>

definition analyze_image ::
  "env \<Rightarrow> image_agent \<Rightarrow> pystr option \<Rightarrow> pystr option \<Rightarrow> pystr option \<Rightarrow> world
     \<Rightarrow> (py_exn + result) \<times> world" where
  "analyze_image e a image_url image_base64 context w0 =
     (let (s1, w1) = ReasoningStep e 1 (str ''Image analysis requested'')
                       (Some [(str ''image_url'', json_opt image_url),
                              (str ''has_base64'', JBool (image_base64 \<noteq> None)),
                              (str ''context'', json_opt context)]) None w0
      in if \<not> truthy image_url \<and> \<not> truthy image_base64 then
           (Inr [(str ''error'', Val (JStr (str ''No image provided''))),
                 (str ''reasoning'', Steps [s1])], w1)
         else
           (let prompt = image_prompt context;
                (s2, w2) = ReasoningStep e 2 (str ''Generated image analysis prompt'') None None w1
            in case chat e (image_llm a) prompt w2 of
                 (Inl ex, w3) \<Rightarrow> (Inl ex, w3)
               | (Inr analysis, w3) \<Rightarrow>
                   (let (s3, w4) = ReasoningStep e 3 (str ''Image analysis completed'') None
                                     (Some [(str ''analysis_length'',
                                             JInt (int (length analysis)))]) w3
                    in (Inr [(str ''summary'', Val (JStr analysis)),
                             (str ''reasoning'', Steps ([s1, s2] @ [s3]))], w4))))"

section \<open>agents/progress/agent.py\<close>

definition progress_prompt :: "pystr list \<Rightarrow> pystr" where
  "progress_prompt commits =
     str ''You are a progress tracking agent.\<newline>'' @
     str ''Analyze these commits and summarize achievements and velocity:\<newline>'' @
     py_join (str ''\<newline>'') (map (\<lambda>c. str ''- '' @ c) commits) @
     str ''\<newline>\<newline>Be concise and positive.''"

record progress_agent =
  progress_llm :: llm_client
  progress_jira :: jira_client

text \<open>\<open>ProgressAgent.analyze_progress\<close>.\<close>

definition analyze_progress :: "env \<Rightarrow> progress_agent \<Rightarrow> pystr list \<Rightarrow> world \<Rightarrow> result \<times> world" where
  "analyze_progress e a commits w0 =
     (let (s1, w1) = ReasoningStep e 1 (str ''Received commits for progress analysis'')
                       (Some [(str ''commits_count'', JInt (int (length commits)))]) None w0;
          prompt = progress_prompt commits;
          (s2, w2) = ReasoningStep e 2 (str ''Generated prompt for progress summary'') None None w1
      in case chat e (progress_llm a) prompt w2 of
           (Inr summary, w3) \<Rightarrow>
             (let (s3, w4) = ReasoningStep e 3 (str ''Received progress summary from LLM'') None
                               (Some [(str ''summary_length'', JInt (int (length summary)))]) w3
              in ([(str ''commits_count'', Val (JInt (int (length commits)))),
                   (str ''commits'', Val (json_strs commits)),
                   (str ''summary'', Val (JStr summary)),
                   (str ''reasoning'', Steps ([s1, s2] @ [s3]))], w4))
         | (Inl ex, w3) \<Rightarrow>
             (let (s4, w4) = ReasoningStep e 4 (str ''Progress analysis failed'') None
                               (Some [(str ''error'', JStr (exn_str ex))]) w3
              in ([(str ''commits_count'', Val (JInt (int (length commits)))),
                   (str ''error'', Val (JStr (exn_str ex))),
                   (str ''reasoning'', Steps ([s1, s2] @ [s4])),
                   (str ''fallback'', Val (JStr (str ''Manual review needed'')))], w4)))"

text \<open>
  \<open>v[k]\<close> for a string \<open>k\<close>: a \<open>KeyError\<close> when the dict \<open>v\<close> has no such key, a
  \<open>TypeError\<close> when \<open>v\<close> is no dict. Then \<open>issue["fields"]["status"]["name"]\<close>.
\<close>

definition getitem :: "env \<Rightarrow> json \<Rightarrow> pystr \<Rightarrow> py_exn + json" where
  "getitem e v k =
     (case v of
        JDict d \<Rightarrow>
          (case map_of d k of
             Some x \<Rightarrow> Inr x
           | None \<Rightarrow> Inl (OtherException (fault_text e (MissingKey k))))
      | _ \<Rightarrow> Inl (TypeError (fault_text e (BadSubscript v k))))"

definition status_name :: "env \<Rightarrow> json \<Rightarrow> py_exn + json" where
  "status_name e issue =
     (case getitem e issue (str ''fields'') of
        Inl ex \<Rightarrow> Inl ex
      | Inr fs \<Rightarrow>
          (case getitem e fs (str ''status'') of
             Inl ex \<Rightarrow> Inl ex
           | Inr st \<Rightarrow> getitem e st (str ''name'')))"

text \<open>A list or a dict cannot be the key of a dict.\<close>

definition hashable :: "json \<Rightarrow> bool" where
  "hashable v = (case v of JList xs \<Rightarrow> False | JDict d \<Rightarrow> False | _ \<Rightarrow> True)"

text \<open>
  The loop of \<open>jira_velocity\<close> that fills \<open>status_counts\<close>. The keys are compared as
  values here; that Python takes \<open>1\<close>, \<open>1.0\<close> and \<open>True\<close> for one key makes no
  difference to what follows, where the first key that is not a string raises.
\<close>

fun count_statuses :: "env \<Rightarrow> json list \<Rightarrow> (json \<times> int) list \<Rightarrow> py_exn + (json \<times> int) list" where
  "count_statuses e [] status_counts = Inr status_counts"
| "count_statuses e (issue # issues) status_counts =
     (case status_name e issue of
        Inl ex \<Rightarrow> Inl ex
      | Inr status \<Rightarrow>
          if \<not> hashable status then Inl (TypeError (fault_text e (Unhashable status)))
          else count_statuses e issues
                 (AList.update status
                    ((case map_of status_counts status of None \<Rightarrow> 0 | Some n \<Rightarrow> n) + 1)
                    status_counts))"

text \<open>
  \<open>sum(v for k, v in status_counts.items() if k.lower() in ["done", "closed", "resolved"])\<close>:
  \<open>k.lower()\<close> raises an \<open>AttributeError\<close> for a key that is no string.
\<close>

fun done_sum :: "env \<Rightarrow> (json \<times> int) list \<Rightarrow> py_exn + int" where
  "done_sum e [] = Inr 0"
| "done_sum e ((JStr k, v) # items) =
     (case done_sum e items of
        Inl ex \<Rightarrow> Inl ex
      | Inr n \<Rightarrow>
          Inr ((if py_lower e k \<in> set [str ''done'', str ''closed'', str ''resolved''] then v else 0)
               + n))"
| "done_sum e ((k, v) # items) =
     Inl (OtherException (fault_text e (NoAttribute k (str ''lower''))))"

definition velocity_status :: "int \<Rightarrow> pystr" where
  "velocity_status tenths =
     (if tenths \<ge> 800 then str ''excellent''
      else if tenths \<ge> 600 then str ''good''
      else if tenths \<ge> 300 then str ''at_risk''
      else str ''critical'')"

text \<open>The counts as a JSON object, once all their keys are known to be strings.\<close>

fun breakdown :: "(json \<times> int) list \<Rightarrow> dict" where
  "breakdown [] = []"
| "breakdown ((JStr k, v) # items) = (k, JInt v) # breakdown items"
| "breakdown ((k, v) # items) = breakdown items"

text \<open>The \<open>except\<close> clause of \<open>jira_velocity\<close>.\<close>

definition velocity_failed ::
  "env \<Rightarrow> reasoning_step list \<Rightarrow> py_exn \<Rightarrow> world \<Rightarrow> result \<times> world" where
  "velocity_failed e reasoning ex w =
     (let (s4, w') = ReasoningStep e 4 (str ''Jira velocity analysis failed'') None
                       (Some [(str ''error'', JStr (exn_str ex))]) w
      in ([(str ''error'', Val (JStr (exn_str ex))),
           (str ''jira_mode'', Val (JStr (str ''error''))),
           (str ''reasoning'', Steps (reasoning @ [s4])),
           (str ''fallback'', Val (JStr (str ''Velocity analysis unavailable'')))], w'))"

text \<open>\<open>ProgressAgent.jira_velocity\<close>; 8212 is the dash U+2014.\<close>

definition jira_velocity ::
  "env \<Rightarrow> progress_agent \<Rightarrow> pystr option \<Rightarrow> world \<Rightarrow> result \<times> world" where
  "jira_velocity e a proj w0 =
     (let j = progress_jira a;
          project = (case proj of
                       None \<Rightarrow> project_key j
                     | Some k \<Rightarrow> if k = [] then project_key j else k);
          mode = (if mock_mode j then str ''mock'' else str ''real'');
          (s1, w1) = ReasoningStep e 1 (str ''Jira velocity analysis requested'')
                       (Some [(str ''project_key'', JStr project)]) None w0
      in case get_project_issues e j 50 w1 of
           (Inl ex, w2) \<Rightarrow> velocity_failed e [s1] ex w2
         | (Inr issues, w2) \<Rightarrow>
             (let (s2, w3) = ReasoningStep e 2 (str ''Retrieved issues from Jira'') None
                               (Some [(str ''issues_count'', JInt (int (length issues)))]) w2
              in if issues = [] then
                   (let (s3, w4) = ReasoningStep e 3
                            (str ''No issues found '' @ [8212] @ str '' returning mock data'')
                            None None w3
                    in ([(str ''project'', Val (JStr project)),
                         (str ''total_issues'', Val (JInt 0)),
                         (str ''status_breakdown'', Val (JDict [])),
                         (str ''completion_rate'', Val (JDec 0 (-1))),
                         (str ''velocity_status'', Val (JStr (str ''no_data''))),
                         (str ''jira_mode'', Val (JStr mode)),
                         (str ''reasoning'', Steps ([s1, s2] @ [s3]))], w4))
                 else
                   (case count_statuses e issues [] of
                      Inl ex \<Rightarrow> velocity_failed e [s1, s2] ex w3
                    | Inr status_counts \<Rightarrow>
                        (case done_sum e status_counts of
                           Inl ex \<Rightarrow> velocity_failed e [s1, s2] ex w3
                         | Inr done_count \<Rightarrow>
                             (let total = int (length issues);
                                  completion_rate = rate_tenths e done_count total;
                                  (s3, w4) = ReasoningStep e 3 (str ''Calculated project velocity'')
                                     None
                                     (Some [(str ''total_issues'', JInt total),
                                            (str ''done_count'', JInt done_count),
                                            (str ''completion_rate'', JDec completion_rate (-1)),
                                            (str ''velocity_status'',
                                               JStr (velocity_status completion_rate))]) w3
                              in ([(str ''project'', Val (JStr project)),
                                   (str ''total_issues'', Val (JInt total)),
                                   (str ''done_issues'', Val (JInt done_count)),
                                   (str ''completion_rate'', Val (JDec completion_rate (-1))),
                                   (str ''velocity_status'',
                                      Val (JStr (velocity_status completion_rate))),
                                   (str ''status_breakdown'', Val (JDict (breakdown status_counts))),
                                   (str ''jira_mode'', Val (JStr mode)),
                                   (str ''reasoning'', Steps ([s1, s2] @ [s3]))], w4))))))"

section \<open>shared/mcp\_base.py\<close>

text \<open>\<open>MCPRequest\<close>; its fields \<open>method\<close> and \<open>id\<close> are named \<open>method_name\<close> and \<open>ident\<close> here.\<close>

record mcp_request =
  method_name :: pystr
  params :: dict
  ident :: "int option"

text \<open>
  A registered handler, called as \<open>handler(**req.params)\<close>: it binds the parameters
  (a \<open>TypeError\<close> when they do not fit its signature) and runs.
\<close>

type_synonym handler = "dict \<Rightarrow> world \<Rightarrow> (py_exn + result) \<times> world"

record mcp_agent =
  name :: pystr
  tools :: "(pystr \<times> handler) list"

text \<open>
  \<open>MCPAgent.__init__\<close> and \<open>register_tool\<close>. \<open>self.tools[name] = handler\<close> keeps the
  place of a key that is already there and puts a new key last.
\<close>

definition MCPAgent_init :: "pystr \<Rightarrow> mcp_agent" where
  "MCPAgent_init n = \<lparr>name = n, tools = []\<rparr>"

definition register_tool :: "mcp_agent \<Rightarrow> pystr \<Rightarrow> handler \<Rightarrow> mcp_agent" where
  "register_tool a n h = a\<lparr>tools := AList.update n h (tools a)\<rparr>"

text \<open>
  What the first \<open>try\<close> of the endpoint leaves: the body decoded and validated into a
  request, or one of the three failures it tells apart, each with its \<open>str(e)\<close>.
\<close>

datatype decoded = JSONDecodeError pystr | ValidationError pystr | DecodeFailed pystr
  | Request mcp_request

definition health :: "mcp_agent \<Rightarrow> result" where
  "health a = [(str ''status'', Val (JStr (str ''ok''))), (str ''agent'', Val (JStr (name a)))]"

text \<open>The endpoint \<open>POST /mcp\<close>; 39 is the apostrophe.\<close>

definition mcp :: "mcp_agent \<Rightarrow> decoded \<Rightarrow> world \<Rightarrow> result \<times> world" where
  "mcp a d w =
     (case d of
        JSONDecodeError m \<Rightarrow>
          ([(str ''error'', Val (JStr (str ''Invalid JSON''))),
            (str ''details'', Val (JStr m)),
            (str ''hint'', Val (JStr (str ''Send valid JSON with '' @ [39] @ str ''method'' @ [39] @ str '' and '' @ [39] @
                               str ''params'' @ [39])))], w)
      | ValidationError m \<Rightarrow>
          ([(str ''error'', Val (JStr (str ''Invalid MCP request format''))),
            (str ''details'', Val (JStr m)),
            (str ''hint'', Val (JStr (str ''Required fields: method (str), params (dict)'')))], w)
      | DecodeFailed m \<Rightarrow>
          ([(str ''error'', Val (JStr (str ''Request processing failed''))),
            (str ''details'', Val (JStr m))], w)
      | Request req \<Rightarrow>
          (let tool_name = py_replace (str ''tools/'') [] (method_name req) in
           case map_of (tools a) tool_name of
             None \<Rightarrow>
               ([(str ''error'', Val (JStr (str ''Unknown tool: '' @ tool_name))),
                 (str ''available_tools'', Val (json_strs (map fst (tools a))))], w)
           | Some handler \<Rightarrow>
               (case handler (params req) w of
                  (Inr r, w') \<Rightarrow> (r, w')
                | (Inl (TypeError m), w') \<Rightarrow>
                    ([(str ''error'',
                         Val (JStr (str ''Invalid parameters for tool '' @ [39] @ tool_name @ [39]))),
                      (str ''details'', Val (JStr m))], w')
                | (Inl ex, w') \<Rightarrow>
                    ([(str ''error'', Val (JStr (str ''Tool execution failed''))),
                      (str ''tool'', Val (JStr tool_name)),
                      (str ''details'', Val (JStr (exn_str ex)))], w'))))"

text \<open>
  The reading of the method name in the specification's words: one leading \<open>"tools/"\<close>
  is taken off when it is there. It is compared with what \<open>mcp\<close> does.
\<close>

definition spec_strip_tools_prefix :: "pystr \<Rightarrow> pystr" where
  "spec_strip_tools_prefix m =
     (if prefix (str ''tools/'') m then drop (length (str ''tools/'')) m else m)"

text \<open>The agent after the registrations of its constructor, in their order.\<close>

fun register_all :: "mcp_agent \<Rightarrow> (pystr \<times> handler) list \<Rightarrow> mcp_agent" where
  "register_all a [] = a"
| "register_all a ((n, h) # regs) = register_all (register_tool a n h) regs"

section \<open>The numbering of a trace\<close>

definition steps :: "result \<Rightarrow> int list" where
  "steps r = map step_number (get_reasoning r)"

text \<open>Numbers that start at 1 and grow from each one to the next.\<close>

definition increasing_from_one :: "int list \<Rightarrow> bool" where
  "increasing_from_one ns \<longleftrightarrow> ns \<noteq> [] \<and> hd ns = 1 \<and> sorted_wrt (<) ns"

section \<open>Concrete inputs\<close>

text \<open>
  A world to run the functions in: the clock stands at 2025-01-02 03:04:05, every request
  times out, and the hash of a string is its length. Of the Unicode database it has the
  capitals of Latin-1 and the Kelvin sign U+212A, whose lowercase is the letter k; a
  fault is reported by its kind; the rate is rounded half up.
\<close>

definition env_down :: env where
  "env_down =
     \<lparr>utcnow = (\<lambda>k. \<lparr>year = 2025, month = 1, day = 2, hour = 3, minute = 4, second = 5,
                       microsecond = 0\<rparr>),
      http = (\<lambda>k r. Inl (OtherException (str ''timed out''))),
      py_hash = (\<lambda>s. int (length s)),
      lower_full = (\<lambda>c. if c = 8490 then [107]
                         else if 192 \<le> c \<and> c \<le> 222 \<and> c \<noteq> 215 then [c + 32]
                         else [c]),
      final_sigma = (\<lambda>before after. False),
      fault_text = (\<lambda>f. case f of
                           MissingKey k \<Rightarrow> [39] @ k @ [39]
                         | BadSubscript v k \<Rightarrow> str ''object is not subscriptable''
                         | Unhashable v \<Rightarrow> str ''unhashable type''
                         | NoAttribute v n \<Rightarrow> str ''object has no attribute '' @ [39] @ n @ [39]),
      rate_tenths = (\<lambda>d t. (2000 * d + t) div (2 * t))\<rparr>"

text \<open>The clients as the constructors make them without and with \<open>LLM_PROVIDER=groq\<close>.\<close>

definition stub_client :: llm_client where
  "stub_client = \<lparr>provider = str ''stub'', api_key = [], base_url = [], model = []\<rparr>"

definition groq_client :: llm_client where
  "groq_client =
     \<lparr>provider = str ''groq'', api_key = str ''secret'',
      base_url = str ''https://api.groq.com/openai/v1/chat/completions'',
      model = str ''llama-3.3-70b-versatile''\<rparr>"

text \<open>The tracker client of a process without credentials.\<close>

definition mock_jira :: jira_client where
  "mock_jira = JiraClient_init None None None None"

text \<open>
  A world in which the provider answers every request with the numbered list
  "1. Do A", "2. Do B", "3. Do C".
\<close>

definition env_abc :: env where
  "env_abc =
     env_down\<lparr>http := (\<lambda>k r. Inr \<lparr>status_error = None,
                          chat_content = Inr (str ''1. Do A\<newline>2. Do B\<newline>3. Do C''),
                          issue_created = Inl (OtherException (str ''key'')),
                          issues_found = Inr []\<rparr>)\<rparr>"

definition planner_stub :: planner_agent where
  "planner_stub = \<lparr>llm = stub_client, jira = mock_jira\<rparr>"

definition planner_groq :: planner_agent where
  "planner_groq = \<lparr>llm = groq_client, jira = mock_jira\<rparr>"

definition progress_mock :: progress_agent where
  "progress_mock = \<lparr>progress_llm = stub_client, progress_jira = mock_jira\<rparr>"

definition risks_stub :: risks_agent where
  "risks_stub = \<lparr>risks_llm = stub_client\<rparr>"

text \<open>
  An agent with the two tool names of the planner; the handler put under them here gives
  back the parameters it was called with.
\<close>

definition echo_handler :: handler where
  "echo_handler ps w = (Inr [(str ''called_with'', Val (JDict ps))], w)"

definition two_tools :: mcp_agent where
  "two_tools =
     register_all (MCPAgent_init (str ''Planner''))
       [(str ''plan'', echo_handler), (str ''plan_with_jira'', echo_handler)]"

section \<open>Facts about the string functions\<close>

lemma str_Nil [simp]: "str [] = []"
  by (simp add: str_def)

lemma str_Cons: "str (c # cs) = of_char c # str cs"
  by (simp add: str_def)

lemma str_append: "str (a @ b) = str a @ str b"
  by (simp add: str_def)

lemma str_eq_iff [simp]: "str a = str b \<longleftrightarrow> a = b"
  unfolding str_def by (simp add: inj_map_eq_map inj_on_def)

lemma length_str [simp]: "length (str s) = length s"
  by (simp add: str_def)

lemma str_eq_Nil_iff [simp]: "str s = [] \<longleftrightarrow> s = []"
  by (simp add: str_def)

lemma py_split_not_Nil: "py_split sep s \<noteq> []"
  by (induction s) (auto split: list.splits)

lemma py_split_prefix:
  "sep \<notin> set p \<Longrightarrow> \<exists>l ls. py_split sep (p @ s) = (p @ l) # ls"
proof (induction p)
  case Nil
  then show ?case using py_split_not_Nil [of sep s] by (cases "py_split sep s") auto
next
  case (Cons c p)
  then show ?case by (auto split: list.splits)
qed

lemma rstrip_keeps_prefix:
  assumes "x \<noteq> []" "\<not> P (last x)"
  shows "\<exists>z. rev (dropWhile P (rev (x @ y))) = x @ z"
proof (cases "\<forall>c\<in>set (rev y). P c")
  case True
  have "dropWhile P (rev x) = rev x"
    using assms by (cases x rule: rev_cases) auto
  then show ?thesis using True by (simp add: dropWhile_append)
next
  case False
  then show ?thesis by (auto simp add: dropWhile_append)
qed

lemma py_strip_keeps_prefix:
  assumes "x \<noteq> []" "\<not> py_isspace (hd x)" "\<not> py_isspace (last x)"
  shows "\<exists>z. py_strip (x @ y) = x @ z"
proof -
  have "dropWhile py_isspace (x @ y) = x @ y"
    using assms by (cases x) auto
  then show ?thesis
    using rstrip_keeps_prefix [of x py_isspace y] assms by (simp add: py_strip_def)
qed

lemma prefix_py_in: "prefix a b \<Longrightarrow> py_in a b"
  by (cases b) auto

lemma py_join_prefix: "\<exists>t. py_join sep (x # xs) = x @ t"
  by (cases xs) auto


lemma lower_from_ascii_prefix:
  "list_all (\<lambda>c. c < 128) x \<Longrightarrow>
     lower_from e before (x @ y) = map ascii_lower x @ lower_from e (before @ x) y"
  by (induction x arbitrary: before) (simp_all add: lower_at_def)

lemma py_lower_ascii_prefix:
  "list_all (\<lambda>c. c < 128) x \<Longrightarrow> py_lower e (x @ y) = map ascii_lower x @ lower_from e x y"
  using lower_from_ascii_prefix [of x e "[]" y] by (simp add: py_lower_def)

lemma py_lower_ascii:
  "list_all (\<lambda>c. c < 128) s \<Longrightarrow> py_lower e s = map ascii_lower s"
  using py_lower_ascii_prefix [of s e "[]"] by simp

lemma strings_of_json_strs [simp]: "strings_of (map JStr xs) = xs"
  by (induction xs) simp_all

section \<open>The LLM gateway\<close>

lemma LLMClient_init_default: "LLMClient_init e None k = Inr stub_client"
  by (simp add: LLMClient_init_def stub_client_def py_lower_ascii ascii_lower_def str_def)

lemma LLMClient_init_groq:
  "LLMClient_init e (Some (str ''GROQ'')) (Some (str ''secret'')) = Inr groq_client"
  by (simp add: LLMClient_init_def groq_client_def py_lower_ascii ascii_lower_def str_def)

text \<open>\<open>chat\<close> returns a string whatever the provider and the network do.\<close>

lemma chat_returns: "\<exists>s. fst (chat e c prompt w) = Inr s"
  by (auto simp add: chat_def chat_upstream_def http_send_def Let_def
      split: prod.splits sum.splits option.splits)

lemma chat_never_raises: "chat e c p w = (Inl x, w') \<Longrightarrow> False"
  using chat_returns [of e c p w] by auto

text \<open>
  C2. With the provider "groq", a failure raised during the upstream call (by the
  transport when the request is posted, by the status check of the response, or while the
  content is read out of the response) is caught inside \<open>chat\<close>: \<open>chat\<close> returns the
  string "[LLM error] " followed by the message of the failure, and does not raise.
\<close>

theorem chat_groq_failure:
  assumes "provider c = str ''groq''"
    and "http e (length (sent w)) (chat_request c prompt) = Inl ex \<or>
         (\<exists>resp. http e (length (sent w)) (chat_request c prompt) = Inr resp \<and>
                 (status_error resp = Some ex \<or>
                  (status_error resp = None \<and> chat_content resp = Inl ex)))"
  shows "fst (chat e c prompt w) = Inr (str ''[LLM error] '' @ exn_str ex)"
  using assms
  by (auto simp add: chat_def chat_upstream_def http_send_def Let_def
      split: prod.splits sum.splits option.splits)

theorem chat_groq_failure_witness:
  "provider groq_client = str ''groq'' \<and>
   http env_down (length (sent world0)) (chat_request groq_client (str ''hello'')) =
     Inl (OtherException (str ''timed out'')) \<and>
   fst (chat env_down groq_client (str ''hello'') world0) = Inr (str ''[LLM error] timed out'')"
proof -
  have h1: "provider groq_client = str ''groq''"
    by (simp add: groq_client_def)
  have h2: "http env_down (length (sent world0)) (chat_request groq_client (str ''hello'')) =
              Inl (OtherException (str ''timed out''))"
    by (simp add: env_down_def)
  show ?thesis
    using h1 h2
      chat_groq_failure [OF h1, of env_down world0 "str ''hello''" "OtherException (str ''timed out'')"]
    by (simp add: str_def)
qed

text \<open>
  C3. With the provider "stub", \<open>chat(X)\<close> returns the string "[stub] " followed by
  \<open>X\<close>, for every \<open>X\<close>; the answer depends neither on the outside world nor on what
  happened before, so that two calls with the same input return the same output; and no
  request is sent.
\<close>

theorem chat_stub:
  assumes "provider c = str ''stub''"
  shows "fst (chat e c X w) = Inr (str ''[stub] '' @ X) \<and>
         fst (chat e' c X w') = fst (chat e c X w) \<and>
         sent (snd (chat e c X w)) = sent w"
  using assms by (simp add: chat_def)

theorem chat_stub_witness:
  "provider stub_client = str ''stub'' \<and>
   fst (chat env_down stub_client (str ''X'') world0) = Inr (str ''[stub] X'')"
  using chat_stub [of stub_client env_down "str ''X''" world0]
  by (simp add: stub_client_def str_def)

text \<open>The client of a process without \<open>LLM_PROVIDER\<close> echoes the prompt.\<close>

lemma stub_echo:
  "fst (chat e stub_client p w) = Inr (str ''[stub] '' @ p)"
  by (simp add: chat_def stub_client_def)

section \<open>The ticket-tracker gateway\<close>

lemma mock_jira_fields:
  "mock_mode mock_jira" "project_key mock_jira = str ''PROJ''"
  by (simp_all add: mock_jira_def JiraClient_init_def Let_def truthy_def)

text \<open>The mode is mock exactly when one of the three credentials is missing or empty.\<close>

lemma JiraClient_init_mock_mode:
  "mock_mode (JiraClient_init u m t k) \<longleftrightarrow>
     \<not> (py_rstrip (str ''/'') (case u of None \<Rightarrow> [] | Some v \<Rightarrow> v) \<noteq> [] \<and> truthy m \<and> truthy t)"
  by (simp add: JiraClient_init_def Let_def)

text \<open>
  C7. In mock mode \<open>get_project_issues\<close> returns three issue records, with the statuses
  Done, In Progress and To Do, and \<open>create_task\<close> returns a result whose \<open>mock\<close> is true
  and whose issue key is the project key, a dash and \<open>hash(summary) % 1000\<close>; both leave
  the world as it was: no request is sent.
\<close>

theorem jira_mock_mode:
  assumes "mock_mode j"
  shows "(\<exists>i1 i2 i3. fst (get_project_issues e j n w) = Inr [i1, i2, i3] \<and>
            issue_status i1 = Some (JStr (str ''Done'')) \<and>
            issue_status i2 = Some (JStr (str ''In Progress'')) \<and>
            issue_status i3 = Some (JStr (str ''To Do''))) \<and>
         snd (get_project_issues e j n w) = w \<and>
         snd (create_task e j summary descr ty w) = w \<and>
         (\<exists>r. fst (create_task e j summary descr ty w) = Inr r \<and>
            map_of r (str ''mock'') = Some (JBool True) \<and>
            map_of r (str ''issue_key'') =
              Some (JStr (project_key j @ str ''-'' @ str_int (py_hash e summary mod 1000))))"
  using assms
  by (simp add: get_project_issues_def create_task_def Let_def mock_issue_def issue_status_def)

theorem jira_mock_mode_witness:
  "mock_mode mock_jira \<and>
   length (projr (fst (get_project_issues env_down mock_jira 50 world0))) = 3 \<and>
   sent (snd (create_task env_down mock_jira (str ''Fix bug'') (str ''now'') (str ''Task'') world0)) = [] \<and>
   map_of (projr (fst (create_task env_down mock_jira (str ''Fix bug'') (str ''now'') (str ''Task'')
                    world0))) (str ''issue_key'') = Some (JStr (str ''PROJ-7''))"
  using jira_mock_mode [of mock_jira env_down 50 world0 "str ''Fix bug''" "str ''now''" "str ''Task''"]
  by (auto simp add: mock_jira_fields world0_def env_down_def str_int_def digits.simps str_def)

section \<open>The handlers for images and digests\<close>

text \<open>
  C10. Called with neither \<open>image_url\<close> nor \<open>image_base64\<close>, \<open>analyze_image\<close> returns
  the error "No image provided" together with the trace so far, which is its first step;
  the clock has been read for that step and nothing else has happened: no prompt went to
  the LLM gateway and no request was sent.
\<close>

theorem analyze_image_no_image:
  "\<exists>s1. analyze_image e a None None context w =
          (Inr [(str ''error'', Val (JStr (str ''No image provided''))),
                (str ''reasoning'', Steps [s1])],
           w\<lparr>ticks := Suc (ticks w)\<rparr>) \<and>
        step_number s1 = 1 \<and> description s1 = str ''Image analysis requested'' \<and>
        llm_calls (snd (analyze_image e a None None context w)) = llm_calls w \<and>
        sent (snd (analyze_image e a None None context w)) = sent w"
  by (simp add: analyze_image_def ReasoningStep_def truthy_def)

text \<open>
  C8. Called without a date, \<open>daily_digest\<close> puts today's date, as \<open>strftime\<close> gives
  it, into the first step of its trace, and records \<open>auto_date\<close> as false there: the
  flag is computed from the variable after the date has been filled in.
\<close>

theorem daily_digest_auto_date:
  "\<exists>s1 rest.
     get_reasoning (fst (daily_digest e a None w)) = s1 # rest \<and>
     input_data s1 = Some [(str ''date'', JStr (strftime_Ymd (utcnow e (ticks w)))),
                           (str ''auto_date'', JBool False)] \<and>
     map_of (fst (daily_digest e a None w)) (str ''date'') =
       Some (Val (JStr (strftime_Ymd (utcnow e (ticks w)))))"
  by (simp add: daily_digest_def ReasoningStep_def truthy_def get_reasoning_def Let_def
      split: prod.splits sum.splits)

text \<open>On the second of January 2025 that date reads "2025-01-02".\<close>

lemma strftime_Ymd_example: "strftime_Ymd (utcnow env_down 0) = str ''2025-01-02''"
  by (simp add: env_down_def strftime_Ymd_def zero_pad_def digits.simps str_def)

section \<open>The dispatch envelope\<close>

lemma register_tool_keys:
  "map fst (tools (register_tool a n h)) =
     (if n \<in> set (map fst (tools a)) then map fst (tools a) else map fst (tools a) @ [n])"
  by (simp add: register_tool_def AList.update_keys)

lemma register_tool_key_set:
  "fst ` set (tools (register_tool a n h)) = insert n (fst ` set (tools a))"
  by (simp add: register_tool_def AList.dom_update)

lemma register_all_keys:
  "fst ` set (tools (register_all a regs)) = fst ` set (tools a) \<union> fst ` set regs"
  by (induction a regs rule: register_all.induct) (simp_all add: register_tool_key_set)

lemma register_all_distinct:
  "distinct (map fst (tools a)) \<Longrightarrow> distinct (map fst (tools (register_all a regs)))"
  by (induction a regs rule: register_all.induct) (auto simp add: register_tool_keys)

text \<open>
  C1 (amended). The endpoint takes every occurrence of "tools/" out of the method name,
  not only a leading one, and looks the rest up among the registered names. When that
  rest is not registered, the result is the error "Unknown tool: " followed by the rest,
  with \<open>available_tools\<close> listing the registered names, each once; no handler runs.
\<close>

theorem mcp_unknown_tool:
  assumes "a = register_all (MCPAgent_init nm) regs"
    and "tool_name = py_replace (str ''tools/'') [] (method_name req)"
    and "tool_name \<notin> fst ` set regs"
  shows "\<exists>names. mcp a (Request req) w =
           ([(str ''error'', Val (JStr (str ''Unknown tool: '' @ tool_name))),
             (str ''available_tools'', Val (json_strs names))], w) \<and>
           distinct names \<and> set names = fst ` set regs"
proof -
  have k: "fst ` set (tools a) = fst ` set regs"
    unfolding assms(1) by (simp add: register_all_keys MCPAgent_init_def)
  have d: "distinct (map fst (tools a))"
    unfolding assms(1) by (rule register_all_distinct) (simp add: MCPAgent_init_def)
  have "map_of (tools a) tool_name = None"
    using k assms(3) by (simp add: map_of_eq_None_iff)
  then show ?thesis
    using k d
    by (intro exI [of _ "map fst (tools a)"]) (simp add: mcp_def assms(2) [symmetric] Let_def)
qed

lemma two_tools_tools:
  "tools two_tools = [(str ''plan'', echo_handler), (str ''plan_with_jira'', echo_handler)]"
  by (simp add: two_tools_def register_tool_def MCPAgent_init_def)

theorem mcp_unknown_tool_witness:
  "two_tools = register_all (MCPAgent_init (str ''Planner''))
       [(str ''plan'', echo_handler), (str ''plan_with_jira'', echo_handler)] \<and>
   str ''digest'' = py_replace (str ''tools/'') [] (str ''tools/digest'') \<and>
   str ''digest'' \<notin> fst ` set [(str ''plan'', echo_handler), (str ''plan_with_jira'', echo_handler)] \<and>
   (\<exists>names.
      mcp two_tools (Request \<lparr>method_name = str ''tools/digest'', params = [], ident = None\<rparr>) world0 =
        ([(str ''error'', Val (JStr (str ''Unknown tool: '' @ str ''digest''))),
          (str ''available_tools'', Val (json_strs names))], world0) \<and>
      distinct names \<and> set names = {str ''plan'', str ''plan_with_jira''})"
proof -
  have h2: "str ''digest'' =
      py_replace (str ''tools/'') []
        (method_name \<lparr>method_name = str ''tools/digest'', params = [], ident = None\<rparr>)"
    by (simp add: py_replace.simps str_def)
  have h3: "str ''digest'' \<notin> fst ` set [(str ''plan'', echo_handler), (str ''plan_with_jira'', echo_handler)]"
    by simp
  show ?thesis
    using two_tools_def h2 h3 mcp_unknown_tool [OF two_tools_def h2 h3, of world0]
    by auto
qed

text \<open>
  The statement as the specification words it, with one leading "tools/" taken off, fails on
  the method "tools/tools/plan": what is left, "tools/plan", is not registered, and yet
  the endpoint runs the handler of "plan" and returns its result instead of the error.
\<close>

theorem mcp_prefix_counterexample:
  "spec_strip_tools_prefix (str ''tools/tools/plan'') = str ''tools/plan'' \<and>
   str ''tools/plan'' \<notin> fst ` set (tools two_tools) \<and>
   fst (mcp two_tools (Request \<lparr>method_name = str ''tools/tools/plan'', params = [], ident = None\<rparr>) world0)
     = [(str ''called_with'', Val (JDict []))]"
proof -
  have h: "py_replace (str ''tools/'') [] (str ''tools/tools/plan'') = str ''plan''"
    by (simp add: py_replace.simps str_def)
  have s: "spec_strip_tools_prefix (str ''tools/tools/plan'') = str ''tools/plan''"
    by (simp add: spec_strip_tools_prefix_def str_def)
  show ?thesis
    by (simp add: s mcp_def h two_tools_tools echo_handler_def)
qed

section \<open>The planning handler\<close>

lemma stub_line_invalid: "is_invalid_response e ((str ''[stub]'' @ z) # rest)"
proof -
  obtain t where t: "py_join (str '' '') ((str ''[stub]'' @ z) # rest) = (str ''[stub]'' @ z) @ t"
    using py_join_prefix by blast
  have "py_lower e (str ''[stub]'' @ (z @ t)) =
          map ascii_lower (str ''[stub]'') @ lower_from e (str ''[stub]'') (z @ t)"
    by (rule py_lower_ascii_prefix) (simp add: str_def)
  moreover have "map ascii_lower (str ''[stub]'') = str ''[stub]''"
    by (simp add: ascii_lower_def str_def)
  ultimately have "prefix (str ''[stub]'')
               (py_lower e (py_join (str '' '') ((str ''[stub]'' @ z) # rest)))"
    unfolding t by simp
  then have "py_in (str ''[stub]'')
               (py_lower e (py_join (str '' '') ((str ''[stub]'' @ z) # rest)))"
    by (rule prefix_py_in)
  then show ?thesis
    by (simp add: is_invalid_response_def stub_indicators_def Let_def)
qed

lemma stub_response_parse:
  assumes "prefix (str ''[stub] '') response"
    and "\<forall>line \<in> set (py_split 10 response). \<not> numbered line"
  shows "\<exists>z rest. parse_subtasks response = (str ''[stub]'' @ z) # rest"
proof -
  obtain s where s: "response = str ''[stub]'' @ (str '' '' @ s)"
    using assms(1) by (auto simp add: prefix_def str_def)
  have "(10::nat) \<notin> set (str ''[stub]'')" by (simp add: str_def)
  then obtain l ls where l: "py_split 10 response = (str ''[stub]'' @ l) # ls"
    unfolding s using py_split_prefix [of 10 "str ''[stub]''" "str '' '' @ s"] by blast
  obtain z where z: "py_strip (str ''[stub]'' @ l) = str ''[stub]'' @ z"
    using py_strip_keeps_prefix [of "str ''[stub]''" l]
    by (auto simp add: str_def py_isspace_def)
  have n: "numbered_lines response = []"
    using assms(2) by (simp add: numbered_lines_def filter_empty_conv)
  have "first_lines response =
          (str ''[stub]'' @ z) # take 4 (map py_strip (filter (\<lambda>line. py_strip line \<noteq> []) ls))"
    by (simp add: first_lines_def l z)
  then show ?thesis by (simp add: parse_subtasks_def n)
qed

lemma get_subtasks_plan_parsed:
  "get_subtasks (fst (plan_parsed e d reasoning response w)) =
     (if is_invalid_response e (parse_subtasks response) then fallback_subtasks
      else parse_subtasks response)"
  by (simp add: plan_parsed_def get_subtasks_def json_strs_def ReasoningStep_def Let_def)

lemma plan_after_chat:
  assumes "fst (chat e (llm a) (plan_prompt d) (w\<lparr>ticks := Suc (Suc (ticks w))\<rparr>)) = Inr response"
  shows "get_subtasks (fst (plan e a d w)) =
     (if is_invalid_response e (parse_subtasks response) then fallback_subtasks
      else parse_subtasks response)"
proof -
  obtain w3 where c: "chat e (llm a) (plan_prompt d) (w\<lparr>ticks := Suc (Suc (ticks w))\<rparr>) = (Inr response, w3)"
    using assms by (metis prod.collapse)
  show ?thesis
    by (simp add: plan_def ReasoningStep_def c get_subtasks_plan_parsed)
qed

lemmas string_eval = str_def py_strip_def py_isspace_def py_lstrip_def numbered_def
  numbered_lines_def first_lines_def parse_subtasks_def is_invalid_response_def
  error_indicators_def stub_indicators_def py_lower_ascii ascii_lower_def plan_prompt_def

lemma parse_abc:
  "parse_subtasks (str ''1. Do A\<newline>2. Do B\<newline>3. Do C'') = [str ''Do A'', str ''Do B'', str ''Do C'']"
  by (simp add: string_eval)

lemma valid_abc: "\<not> is_invalid_response e [str ''Do A'', str ''Do B'', str ''Do C'']"
  by (simp add: string_eval)

text \<open>
  C4. When the call of the LLM gateway in \<open>plan\<close> returns the text
  "1. Do A", "2. Do B", "3. Do C" on three lines, the subtasks of the result are
  "Do A", "Do B" and "Do C".
\<close>

theorem plan_numbered_list:
  assumes "fst (chat e (llm a) (plan_prompt d) (w\<lparr>ticks := Suc (Suc (ticks w))\<rparr>)) =
             Inr (str ''1. Do A\<newline>2. Do B\<newline>3. Do C'')"
  shows "get_subtasks (fst (plan e a d w)) = [str ''Do A'', str ''Do B'', str ''Do C'']"
  using plan_after_chat [OF assms] by (simp add: parse_abc valid_abc)

theorem plan_numbered_list_witness:
  "fst (chat env_abc (llm planner_groq) (plan_prompt (str ''Ship it''))
          (world0\<lparr>ticks := Suc (Suc (ticks world0))\<rparr>)) =
     Inr (str ''1. Do A\<newline>2. Do B\<newline>3. Do C'') \<and>
   get_subtasks (fst (plan env_abc planner_groq (str ''Ship it'') world0)) =
     [str ''Do A'', str ''Do B'', str ''Do C'']"
proof -
  have h: "fst (chat env_abc (llm planner_groq) (plan_prompt (str ''Ship it''))
          (world0\<lparr>ticks := Suc (Suc (ticks world0))\<rparr>)) =
     Inr (str ''1. Do A\<newline>2. Do B\<newline>3. Do C'')"
    by (simp add: chat_def chat_upstream_def http_send_def env_abc_def planner_groq_def
        groq_client_def Let_def)
  show ?thesis using h plan_numbered_list [OF h] by simp
qed

text \<open>
  C5 (amended). When the gateway returns a text that begins with "[stub] " and none of
  whose lines begins, once stripped, with a digit, a dot or a dash, the check
  \<open>_is_invalid_response\<close> is true of the parsed subtasks and the result carries the five
  fallback subtasks.
\<close>

theorem plan_stub_fallback:
  assumes "fst (chat e (llm a) (plan_prompt d) (w\<lparr>ticks := Suc (Suc (ticks w))\<rparr>)) = Inr response"
    and "prefix (str ''[stub] '') response"
    and "\<forall>line \<in> set (py_split 10 response). \<not> numbered line"
  shows "is_invalid_response e (parse_subtasks response) \<and>
         get_subtasks (fst (plan e a d w)) = fallback_subtasks"
proof -
  obtain z rest where p: "parse_subtasks response = (str ''[stub]'' @ z) # rest"
    using stub_response_parse [OF assms(2,3)] by blast
  have i: "is_invalid_response e (parse_subtasks response)"
    unfolding p by (rule stub_line_invalid)
  show ?thesis using i plan_after_chat [OF assms(1)] by simp
qed

theorem plan_stub_fallback_witness:
  "fst (chat env_down (llm planner_stub) (plan_prompt (str ''Build a login page''))
          (world0\<lparr>ticks := Suc (Suc (ticks world0))\<rparr>)) =
     Inr (str ''[stub] '' @ plan_prompt (str ''Build a login page'')) \<and>
   prefix (str ''[stub] '') (str ''[stub] '' @ plan_prompt (str ''Build a login page'')) \<and>
   list_all (\<lambda>line. \<not> numbered line)
     (py_split 10 (str ''[stub] '' @ plan_prompt (str ''Build a login page''))) \<and>
   get_subtasks (fst (plan env_down planner_stub (str ''Build a login page'') world0)) =
     fallback_subtasks"
proof -
  have h1: "fst (chat env_down (llm planner_stub) (plan_prompt (str ''Build a login page''))
          (world0\<lparr>ticks := Suc (Suc (ticks world0))\<rparr>)) =
     Inr (str ''[stub] '' @ plan_prompt (str ''Build a login page''))"
    by (simp add: planner_stub_def stub_echo)
  have h2: "prefix (str ''[stub] '') (str ''[stub] '' @ plan_prompt (str ''Build a login page''))"
    by simp
  have h3: "\<forall>line \<in> set (py_split 10 (str ''[stub] '' @ plan_prompt (str ''Build a login page''))).
      \<not> numbered line"
    by (simp add: string_eval)
  show ?thesis using h1 h2 h3 plan_stub_fallback [OF h1 h2 h3] by (simp add: list_all_iff)
qed

text \<open>
  Without the condition on the lines the statement fails: the stub provider echoes the
  prompt, the prompt contains the description, and for the description "1. foo" the
  numbered line is parsed into the one subtask "foo", in which the check finds nothing.
\<close>

theorem plan_stub_fallback_counterexample:
  "fst (chat env_down (llm planner_stub) (plan_prompt (str ''1. foo''))
          (world0\<lparr>ticks := Suc (Suc (ticks world0))\<rparr>)) =
     Inr (str ''[stub] '' @ plan_prompt (str ''1. foo'')) \<and>
   \<not> is_invalid_response env_down
        (parse_subtasks (str ''[stub] '' @ plan_prompt (str ''1. foo''))) \<and>
   get_subtasks (fst (plan env_down planner_stub (str ''1. foo'') world0)) = [str ''foo''] \<and>
   [str ''foo''] \<noteq> fallback_subtasks"
proof -
  have h1: "fst (chat env_down (llm planner_stub) (plan_prompt (str ''1. foo''))
          (world0\<lparr>ticks := Suc (Suc (ticks world0))\<rparr>)) =
     Inr (str ''[stub] '' @ plan_prompt (str ''1. foo''))"
    by (simp add: planner_stub_def stub_echo)
  have h2: "parse_subtasks (str ''[stub] '' @ plan_prompt (str ''1. foo'')) = [str ''foo'']"
    by (simp add: string_eval)
  have h3: "\<not> is_invalid_response env_down [str ''foo'']"
    by (simp add: string_eval)
  show ?thesis using h1 h2 h3 plan_after_chat [OF h1] by (simp add: fallback_subtasks_def)
qed

section \<open>The risk handler\<close>

lemma risk_loop_elements:
  "r \<in> set (risk_loop e ls acc) \<Longrightarrow>
     r \<in> set acc \<or>
     (\<exists>l \<in> set ls. risk_looking e (py_strip l) \<and> r = clean_line (py_strip l) \<and> 20 < length r)"
proof (induction ls arbitrary: acc)
  case Nil
  then show ?case by simp
next
  case (Cons l ls)
  then show ?case
    by (fastforce simp add: Let_def split: if_splits)
qed

lemma detect_risks_elements:
  assumes "r \<in> set (detect_risks e analysis)"
  shows "20 < length r \<and>
         (\<exists>l \<in> set (py_split 10 analysis). risk_looking e (py_strip l) \<and> r = clean_line (py_strip l))"
proof -
  have "r \<in> set (risk_loop e (py_split 10 analysis) [])"
    using assms set_take_subset unfolding detect_risks_def by fastforce
  then show ?thesis using risk_loop_elements [of r e "py_split 10 analysis" "[]"] by auto
qed

lemma analyze_risks_after_chat:
  assumes "fst (chat e (risks_llm a) (risks_prompt f) (w\<lparr>ticks := Suc (Suc (ticks w))\<rparr>)) = Inr analysis"
  shows "get_detected_risks (fst (analyze_risks e a f w)) = detect_risks e analysis"
proof -
  obtain w3 where c: "chat e (risks_llm a) (risks_prompt f) (w\<lparr>ticks := Suc (Suc (ticks w))\<rparr>) = (Inr analysis, w3)"
    using assms by (metis prod.collapse)
  show ?thesis
    by (simp add: analyze_risks_def ReasoningStep_def c get_detected_risks_def json_strs_def Let_def)
qed

text \<open>
  C6. For every analysis text that the gateway returns, \<open>detected_risks\<close> of the result
  is made from the lines of that text: there are at most 10 entries, and each entry is a
  risk-looking line (one that begins with a marker or contains "Risk:" or, in
  lowercase, "risk") without its markers, and is longer than 20 characters. So no line whose text
  without markers has fewer than 20 characters is among them.
\<close>

theorem detected_risks_filtered:
  assumes "fst (chat e (risks_llm a) (risks_prompt f) (w\<lparr>ticks := Suc (Suc (ticks w))\<rparr>)) =
             Inr analysis"
  shows "get_detected_risks (fst (analyze_risks e a f w)) = detect_risks e analysis \<and>
         length (detect_risks e analysis) \<le> 10 \<and>
         (\<forall>r \<in> set (detect_risks e analysis).
            20 < length r \<and>
            (\<exists>l \<in> set (py_split 10 analysis).
               risk_looking e (py_strip l) \<and> r = clean_line (py_strip l)))"
proof -
  have "length (detect_risks e analysis) \<le> 10"
    by (simp add: detect_risks_def)
  then show ?thesis
    using analyze_risks_after_chat [OF assms] detect_risks_elements [of _ e analysis] by blast
qed

lemmas risk_eval = str_def py_strip_def py_isspace_def py_lstrip_def py_lower_ascii ascii_lower_def
  risks_prompt_def risk_looking_def clean_line_def risk_prefixes_def risk_markers_def
  py_startswith_def detect_risks_def Let_def

lemma detect_risks_stub_payments:
  "detect_risks env_down (str ''[stub] '' @ risks_prompt (str ''payments'')) =
     [str ''[stub] Analyze risks for implementing: payments'',
      str ''Provide a concise risk analysis covering:'',
      str ''Security risks (top 2-3)'',
      str ''Performance risks (top 2)'',
      str ''Technical debt risks (top 2)'',
      str ''Compliance risks (if applicable)'',
      str ''For each risk, provide:'',
      str ''Impact (High/Medium/Low)'',
      str ''Quick mitigation strategy (1 sentence)'']"
  by (simp add: risk_eval)

text \<open>
  A line is risk-looking by its lowercase form as the Unicode database gives it: with
  the Kelvin sign U+212A, whose lowercase is the letter k, "ris" and that sign read
  "risk", and the line is kept.
\<close>

lemma detect_risks_kelvin:
  assumes "lower_full e 8490 = [107]"
  shows "detect_risks e (str ''ris'' @ [8490] @ str '' exposure in the billing pipeline'') =
           [str ''ris'' @ [8490] @ str '' exposure in the billing pipeline'']"
  using assms
  by (simp add: str_def py_strip_def py_isspace_def py_lstrip_def py_lower_def lower_at_def
      ascii_lower_def risk_looking_def clean_line_def risk_prefixes_def risk_markers_def
      py_startswith_def detect_risks_def Let_def)

theorem detected_risks_filtered_witness:
  "fst (chat env_down (risks_llm risks_stub) (risks_prompt (str ''payments''))
          (world0\<lparr>ticks := Suc (Suc (ticks world0))\<rparr>)) =
     Inr (str ''[stub] '' @ risks_prompt (str ''payments'')) \<and>
   get_detected_risks (fst (analyze_risks env_down risks_stub (str ''payments'') world0)) =
     detect_risks env_down (str ''[stub] '' @ risks_prompt (str ''payments'')) \<and>
   str ''Security risks (top 2-3)'' \<in>
     set (detect_risks env_down (str ''[stub] '' @ risks_prompt (str ''payments''))) \<and>
   20 < length (str ''Security risks (top 2-3)'') \<and>
   str ''Risk name (brief)'' \<notin>
     set (detect_risks env_down (str ''[stub] '' @ risks_prompt (str ''payments'')))"
proof -
  have c: "fst (chat env_down (risks_llm risks_stub) (risks_prompt (str ''payments''))
                 (world0\<lparr>ticks := Suc (Suc (ticks world0))\<rparr>)) =
             Inr (str ''[stub] '' @ risks_prompt (str ''payments''))"
    by (simp add: risks_stub_def stub_echo)
  have a:
    "get_detected_risks (fst (analyze_risks env_down risks_stub (str ''payments'') world0)) =
       detect_risks env_down (str ''[stub] '' @ risks_prompt (str ''payments''))"
    "\<forall>r \<in> set (detect_risks env_down (str ''[stub] '' @ risks_prompt (str ''payments''))).
       20 < length r"
    using detected_risks_filtered [OF c] by blast+
  have m: "str ''Security risks (top 2-3)'' \<in>
             set (detect_risks env_down (str ''[stub] '' @ risks_prompt (str ''payments'')))"
    by (simp add: detect_risks_stub_payments)
  have n: "str ''Risk name (brief)'' \<notin>
             set (detect_risks env_down (str ''[stub] '' @ risks_prompt (str ''payments'')))"
    by (simp add: detect_risks_stub_payments)
  show ?thesis
    using c a m n by auto
qed

section \<open>The numbering of the traces\<close>

lemma create_task_returns: "\<exists>r. fst (create_task e j s d t w) = Inr r"
  by (auto simp add: create_task_def Let_def split: prod.splits sum.splits py_exn.splits)

lemma create_subtasks_returns:
  "\<exists>issues. fst (create_subtasks e j d i subs acc w) = (None, issues)"
proof (induction subs arbitrary: i acc w)
  case Nil
  then show ?case by simp
next
  case (Cons s subs)
  obtain r where r: "fst (create_task e j (str ''[Subtask '' @ str_int i @ str ''] '' @ s)
             (str ''Part of epic: '' @ d) (str ''Task'') w) = Inr r"
    using create_task_returns by blast
  then show ?case using Cons.IH
    by (auto split: prod.splits sum.splits)
qed

lemma jira_phase_steps:
  "\<exists>s3 s4 issues w'. step_number s3 = 3 \<and> step_number s4 = 4 \<and>
      (\<forall>reasoning. jira_phase e j d subs reasoning w = ((None, reasoning @ [s3, s4], issues), w'))"
proof -
  obtain r w1 where r: "create_task e j (str ''[Epic] '' @ d)
             (str ''Auto-generated by OrchestrAI\<newline>Subtasks planned: '' @
              str_int (int (length subs))) (str ''Task'') w = (Inr r, w1)"
    using create_task_returns [of e j _ _ _ w] by (metis prod.collapse)
  obtain issues w3 where c: "create_subtasks e j d 1 subs [JDict r] (w1\<lparr>ticks := Suc (ticks w1)\<rparr>) = ((None, issues), w3)"
    using create_subtasks_returns [of e j d 1 subs "[JDict r]" "w1\<lparr>ticks := Suc (ticks w1)\<rparr>"] by (metis prod.collapse)
  show ?thesis
    by (simp add: jira_phase_def r c ReasoningStep_def)
qed

lemma plan_shape:
  "\<exists>subtasks s1 s2 s4. fst (plan e a d w) =
      [(str ''task'', Val (JStr d)), (str ''subtasks'', Val (json_strs subtasks)),
       (str ''reasoning'', Steps [s1, s2, s4])] \<and>
      step_number s1 = 1 \<and> step_number s2 = 2 \<and> step_number s4 = 4"
proof -
  let ?w2 = "w\<lparr>ticks := Suc (Suc (ticks w))\<rparr>"
  obtain resp w3 where c: "chat e (llm a) (plan_prompt d) ?w2 = (Inr resp, w3)"
    using chat_returns [of e "llm a" "plan_prompt d" ?w2] by (metis prod.collapse)
  show ?thesis
    by (auto simp add: plan_def ReasoningStep_def c plan_parsed_def Let_def)
qed

lemma plan_with_jira_shape:
  "\<exists>own1 own2 own3 own4 inner.
     get_reasoning (fst (plan_with_jira e a d p w)) = [own1] @ inner @ [own2, own3, own4] \<and>
     inner = get_reasoning (fst (plan e a d (w\<lparr>ticks := Suc (ticks w)\<rparr>))) \<and>
     map step_number [own1, own2, own3, own4] = [1, 2, 3, 4]"
proof -
  let ?w1 = "w\<lparr>ticks := Suc (ticks w)\<rparr>"
  obtain subtasks s1 s2 s4 where p: "fst (plan e a d ?w1) =
      [(str ''task'', Val (JStr d)), (str ''subtasks'', Val (json_strs subtasks)),
       (str ''reasoning'', Steps [s1, s2, s4])]"
    using plan_shape [of e a d ?w1] by blast
  obtain w2 where p2: "plan e a d ?w1 = ([(str ''task'', Val (JStr d)), (str ''subtasks'', Val (json_strs subtasks)),
       (str ''reasoning'', Steps [s1, s2, s4])], w2)"
    using p by (metis prod.collapse)
  obtain s3 s4 issues w' where j: "step_number s3 = 3" "step_number s4 = 4"
      "\<And>reasoning. jira_phase e (jira a) d subtasks reasoning (w2\<lparr>ticks := Suc (ticks w2)\<rparr>) = ((None, reasoning @ [s3, s4], issues), w')"
    using jira_phase_steps [of e "jira a" d subtasks "w2\<lparr>ticks := Suc (ticks w2)\<rparr>"] by blast
  show ?thesis
    by (simp add: plan_with_jira_def ReasoningStep_def p2 j get_reasoning_def get_subtasks_def has_key_def json_strs_def Let_def)
qed


lemma plan_steps: "steps (fst (plan e a d w)) = [1, 2, 4]"
  using plan_shape [of e a d w] by (auto simp add: steps_def get_reasoning_def)

lemma plan_with_jira_steps: "steps (fst (plan_with_jira e a d p w)) = [1, 1, 2, 4, 2, 3, 4]"
  using plan_with_jira_shape [of e a d p w] plan_steps [of e a d "w\<lparr>ticks := Suc (ticks w)\<rparr>"]
  by (auto simp add: steps_def)

lemma analyze_risks_steps: "steps (fst (analyze_risks e a f w)) = [1, 2, 3]"
proof -
  obtain s w3 where c: "chat e (risks_llm a) (risks_prompt f) (w\<lparr>ticks := Suc (Suc (ticks w))\<rparr>) = (Inr s, w3)"
    using chat_returns [of e "risks_llm a" "risks_prompt f"] by (metis prod.collapse)
  show ?thesis
    by (simp add: analyze_risks_def ReasoningStep_def c steps_def get_reasoning_def Let_def)
qed

lemma analyze_progress_steps: "steps (fst (analyze_progress e a cs w)) = [1, 2, 3]"
proof -
  obtain s w3 where c: "chat e (progress_llm a) (progress_prompt cs) (w\<lparr>ticks := Suc (Suc (ticks w))\<rparr>) = (Inr s, w3)"
    using chat_returns [of e "progress_llm a" "progress_prompt cs"] by (metis prod.collapse)
  show ?thesis
    by (simp add: analyze_progress_def ReasoningStep_def c steps_def get_reasoning_def Let_def)
qed

lemma daily_digest_steps: "steps (fst (daily_digest e a date w)) = [1, 2, 3]"
  by (auto simp add: daily_digest_def ReasoningStep_def steps_def get_reasoning_def Let_def
      split: prod.splits sum.splits dest: chat_never_raises)

lemma get_project_issues_returns: "\<exists>issues. fst (get_project_issues e j n w) = Inr issues"
  by (auto simp add: get_project_issues_def http_send_def
      split: prod.splits sum.splits option.splits)

text \<open>
  \<open>jira_velocity\<close> ends with its step 3 when the issues are counted or there is none,
  and with its step 4 when counting them raises.
\<close>

lemma jira_velocity_steps:
  "steps (fst (jira_velocity e a p w)) = [1, 2, 3] \<or>
   steps (fst (jira_velocity e a p w)) = [1, 2, 4]"
proof -
  obtain issues w2 where g:
    "get_project_issues e (progress_jira a) 50 (w\<lparr>ticks := Suc (ticks w)\<rparr>) = (Inr issues, w2)"
    using get_project_issues_returns [of e "progress_jira a" 50 "w\<lparr>ticks := Suc (ticks w)\<rparr>"]
    by (metis prod.collapse)
  show ?thesis
    by (simp add: jira_velocity_def velocity_failed_def ReasoningStep_def g steps_def
        get_reasoning_def Let_def split: sum.splits)
qed

text \<open>
  On the three canned issues of the mock mode one of three is done: the rate is 33.3,
  the status "at_risk", and the trace has the steps 1, 2, 3.
\<close>

lemma count_statuses_mock:
  "count_statuses e
     [mock_issue j ''1'' ''Implement authentication'' ''Done'',
      mock_issue j ''2'' ''Add API documentation'' ''In Progress'',
      mock_issue j ''3'' ''Setup CI/CD'' ''To Do''] [] =
   Inr [(JStr (str ''Done''), 1), (JStr (str ''In Progress''), 1), (JStr (str ''To Do''), 1)]"
  by (simp add: mock_issue_def status_name_def getitem_def hashable_def)

lemma done_sum_mock:
  "done_sum e [(JStr (str ''Done''), 1), (JStr (str ''In Progress''), 1),
               (JStr (str ''To Do''), 1)] = Inr 1"
  by (simp add: py_lower_ascii ascii_lower_def str_def)

lemma jira_velocity_mock:
  "map_of (fst (jira_velocity env_down progress_mock None world0)) (str ''velocity_status'') =
     Some (Val (JStr (str ''at_risk''))) \<and>
   map_of (fst (jira_velocity env_down progress_mock None world0)) (str ''completion_rate'') =
     Some (Val (JDec 333 (-1))) \<and>
   steps (fst (jira_velocity env_down progress_mock None world0)) = [1, 2, 3]"
proof -
  have r: "rate_tenths env_down 1 3 = 333"
    by (simp add: env_down_def)
  show ?thesis
    by (simp add: jira_velocity_def progress_mock_def mock_jira_fields get_project_issues_def
        ReasoningStep_def count_statuses_mock done_sum_mock r velocity_status_def steps_def
        get_reasoning_def Let_def
        del: count_statuses.simps done_sum.simps)
qed

lemma analyze_image_steps:
  "\<exists>r. fst (analyze_image e a u b c w) = Inr r \<and> (steps r = [1] \<or> steps r = [1, 2, 3])"
proof -
  obtain s w3 where c: "chat e (image_llm a) (image_prompt c) (w\<lparr>ticks := Suc (Suc (ticks w))\<rparr>) = (Inr s, w3)"
    using chat_returns [of e "image_llm a" "image_prompt c"] by (metis prod.collapse)
  show ?thesis
    by (simp add: analyze_image_def ReasoningStep_def c steps_def get_reasoning_def Let_def)
qed

text \<open>
  C9 (amended). In one invocation the steps that a handler appends itself are numbered
  from 1 upwards. For every tool handler but the composite one this is its whole trace:
  \<open>daily_digest\<close>, \<open>analyze_image\<close>, \<open>plan\<close>, \<open>analyze_progress\<close>, \<open>jira_velocity\<close>
  and \<open>analyze_risks\<close>. The trace of \<open>plan_with_jira\<close> is its own first step, then the
  trace of the inner call of \<open>plan\<close>, then its own later steps; the own steps are
  numbered from 1 upwards, and so is the inner trace.
\<close>

theorem step_numbers_per_handler:
  "increasing_from_one (steps (fst (plan e pa d w))) \<and>
   increasing_from_one (steps (fst (analyze_risks e ra f w))) \<and>
   increasing_from_one (steps (fst (daily_digest e da date w))) \<and>
   increasing_from_one (steps (fst (analyze_progress e ga cs w))) \<and>
   increasing_from_one (steps (fst (jira_velocity e ga pk w))) \<and>
   (\<exists>r. fst (analyze_image e ia u b c w) = Inr r \<and> increasing_from_one (steps r)) \<and>
   (\<exists>own1 inner own_rest.
      get_reasoning (fst (plan_with_jira e pa d p w)) = own1 # inner @ own_rest \<and>
      inner = get_reasoning (fst (plan e pa d (w\<lparr>ticks := Suc (ticks w)\<rparr>))) \<and>
      increasing_from_one (map step_number (own1 # own_rest)) \<and>
      increasing_from_one (map step_number inner))"
proof -
  have i: "increasing_from_one (map step_number (get_reasoning (fst (plan e pa d (w\<lparr>ticks := Suc (ticks w)\<rparr>)))))"
    using plan_steps [of e pa d "w\<lparr>ticks := Suc (ticks w)\<rparr>"]
    by (simp add: increasing_from_one_def steps_def)
  have j: "\<exists>own1 inner own_rest.
      get_reasoning (fst (plan_with_jira e pa d p w)) = own1 # inner @ own_rest \<and>
      inner = get_reasoning (fst (plan e pa d (w\<lparr>ticks := Suc (ticks w)\<rparr>))) \<and>
      increasing_from_one (map step_number (own1 # own_rest)) \<and>
      increasing_from_one (map step_number inner)"
    using plan_with_jira_shape [of e pa d p w] i
    by (auto simp add: increasing_from_one_def)
  have k: "\<exists>r. fst (analyze_image e ia u b c w) = Inr r \<and> increasing_from_one (steps r)"
    using analyze_image_steps [of e ia u b c w] by (auto simp add: increasing_from_one_def)
  have v: "increasing_from_one (steps (fst (jira_velocity e ga pk w)))"
    using jira_velocity_steps [of e ga pk w] by (auto simp add: increasing_from_one_def)
  show ?thesis
    using j k v
    by (simp add: plan_steps analyze_risks_steps daily_digest_steps analyze_progress_steps
        increasing_from_one_def)
qed

text \<open>
  The concatenated trace of \<open>plan_with_jira\<close> is not monotonic as a whole: after the
  inner step 4 comes the own step 2.
\<close>

theorem plan_with_jira_counterexample:
  "steps (fst (plan_with_jira env_down planner_stub (str ''Ship it'') None world0)) =
     [1, 1, 2, 4, 2, 3, 4] \<and>
   \<not> sorted (steps (fst (plan_with_jira env_down planner_stub (str ''Ship it'') None world0)))"
  by (simp add: plan_with_jira_steps)


end
